theory Spec2Isabelle
  imports Main
begin

section \<open>JavaScript values\<close>

text \<open>
  The values that flow through the frontend: arguments of the API client, JSON bodies
  of requests and responses, React state. Numbers are the integer-valued ones (ids,
  counts), kept exact; \<open>JNaN\<close> is the result of a failed \<open>parseInt\<close>. An object is
  an association list of its properties; \<open>JFormData\<close> is the multipart payload built
  by the upload functions.
\<close>

datatype jsval =
    JUndefined
  | JNull
  | JBool bool
  | JNum int
  | JNaN
  | JStr string
  | JArr "jsval list"
  | JObj "(string \<times> jsval) list"
  | JFormData "(string \<times> jsval) list"

text \<open>Truthiness, as tested by \<open>if (x)\<close>, \<open>x ? a : b\<close> and \<open>x || y\<close>.\<close>

fun truthy :: "jsval \<Rightarrow> bool" where
  "truthy JUndefined = False"
| "truthy JNull = False"
| "truthy (JBool b) = b"
| "truthy (JNum n) = (n \<noteq> 0)"
| "truthy JNaN = False"
| "truthy (JStr s) = (s \<noteq> [])"
| "truthy (JArr xs) = True"
| "truthy (JObj kvs) = True"
| "truthy (JFormData kvs) = True"

text \<open>\<open>a || b\<close>\<close>

definition js_or :: "jsval \<Rightarrow> jsval \<Rightarrow> jsval" where
  "js_or a b = (if truthy a then a else b)"

text \<open>A default parameter \<open>(x = null)\<close> replaces a missing (undefined) argument only.\<close>

definition default_null :: "jsval \<Rightarrow> jsval" where
  "default_null v = (if v = JUndefined then JNull else v)"

text \<open>Property access \<open>o.k\<close> on a value that is not null or undefined, and \<open>o?.k\<close>.\<close>

fun get_prop :: "jsval \<Rightarrow> string \<Rightarrow> jsval" where
  "get_prop (JObj kvs) k = (case map_of kvs k of Some v \<Rightarrow> v | None \<Rightarrow> JUndefined)"
| "get_prop v k = JUndefined"

subsection \<open>Conversion to a string (template literals, \<open>alert\<close>)\<close>

definition digit_char :: "nat \<Rightarrow> char" where
  "digit_char d = ''0123456789'' ! d"

fun dec :: "nat \<Rightarrow> string" where
  "dec n = (if n < 10 then [digit_char n] else dec (n div 10) @ [digit_char (n mod 10)])"

definition dec_int :: "int \<Rightarrow> string" where
  "dec_int i = (if i < 0 then CHR ''-'' # dec (nat (- i)) else dec (nat i))"

fun join_comma :: "string list \<Rightarrow> string" where
  "join_comma [] = []"
| "join_comma [s] = s"
| "join_comma (s # t # ss) = s @ '','' @ join_comma (t # ss)"

fun to_string :: "jsval \<Rightarrow> string" where
  "to_string JUndefined = ''undefined''"
| "to_string JNull = ''null''"
| "to_string (JBool b) = (if b then ''true'' else ''false'')"
| "to_string (JNum n) = dec_int n"
| "to_string JNaN = ''NaN''"
| "to_string (JStr s) = s"
| "to_string (JArr xs) =
     join_comma (map (\<lambda>x. if x = JUndefined \<or> x = JNull then [] else to_string x) xs)"
| "to_string (JObj kvs) = ''[object Object]''"
| "to_string (JFormData kvs) = ''[object FormData]''"

subsection \<open>\<open>parseInt\<close>\<close>

definition is_ws :: "char \<Rightarrow> bool" where
  "is_ws c = (c \<in> set [CHR '' '', CHR 0x09, CHR 0x0A, CHR 0x0B, CHR 0x0C, CHR 0x0D])"

definition digit_value :: "char \<Rightarrow> nat option" where
  "digit_value c =
     (let n = of_char c :: nat in
      if 48 \<le> n \<and> n \<le> 57 then Some (n - 48)
      else if 97 \<le> n \<and> n \<le> 122 then Some (n - 87)
      else if 65 \<le> n \<and> n \<le> 90 then Some (n - 55)
      else None)"

definition is_digit_in :: "nat \<Rightarrow> char \<Rightarrow> bool" where
  "is_digit_in r c = (case digit_value c of Some d \<Rightarrow> d < r | None \<Rightarrow> False)"

definition digits_value :: "nat \<Rightarrow> string \<Rightarrow> nat" where
  "digits_value r ds =
     foldl (\<lambda>acc c. acc * r + (case digit_value c of Some d \<Rightarrow> d | None \<Rightarrow> 0)) 0 ds"

definition strip_hex_prefix :: "string \<Rightarrow> string option" where
  "strip_hex_prefix s =
     (case s of
        c0 # cx # rest \<Rightarrow>
          if c0 = CHR ''0'' \<and> (cx = CHR ''x'' \<or> cx = CHR ''X'') then Some rest else None
      | _ \<Rightarrow> None)"

text \<open>
  \<open>parseInt(v, radix)\<close>; \<open>None\<close> is the call with one argument. Leading white space is
  skipped, a sign is read, a \<open>0x\<close> prefix selects radix 16 when no radix (or 16) is
  given, and the longest prefix of digits is the value; no digit gives \<open>NaN\<close>.
\<close>

definition parseInt :: "jsval \<Rightarrow> nat option \<Rightarrow> jsval" where
  "parseInt v radix =
     (let s = dropWhile is_ws (to_string v);
          neg = (s \<noteq> [] \<and> hd s = CHR ''-'');
          s1 = (if s \<noteq> [] \<and> (hd s = CHR ''-'' \<or> hd s = CHR ''+'') then tl s else s);
          r0 = (case radix of None \<Rightarrow> 0 | Some r \<Rightarrow> r);
          strip = (r0 = 0 \<or> r0 = 16);
          r = (if r0 = 0 then 10 else r0)
      in if r < 2 \<or> 36 < r then JNaN
         else
           let (r', s2) = (case (if strip then strip_hex_prefix s1 else None) of
                             Some rest \<Rightarrow> (16, rest)
                           | None \<Rightarrow> (r, s1));
               ds = takeWhile (is_digit_in r') s2
           in if ds = [] then JNaN
              else JNum ((if neg then - 1 else 1) * int (digits_value r' ds)))"

section \<open>Browser state\<close>

datatype http_method = GET | POST | PUT | DELETE

text \<open>
  A request as axios hands it to the network: the config after the instance defaults
  (\<open>baseURL\<close>, the \<open>Content-Type\<close> header) and the request interceptor.
\<close>

record request =
  http_method :: http_method
  baseURL :: string
  url :: string
  params :: "(string \<times> jsval) list"
  body :: jsval
  headers :: "string \<rightharpoonup> string"

record response =
  status :: nat
  data :: jsval

text \<open>
  What an \<open>await\<close> may throw: the axios error of a failed HTTP call, whose \<open>response\<close>
  is missing when no answer arrived, or a \<open>TypeError\<close> of the language.
\<close>

datatype js_error = AxiosError "response option" | TypeError

fun error_response :: "js_error \<Rightarrow> response option" where
  "error_response (AxiosError r) = r"
| "error_response TypeError = None"

text \<open>
  The observable effects, in the order in which the code performs them: calls of
  the API client (the request it is to send), dialogs, console output, and the calls
  of the React state setters of the two views.
\<close>

datatype effect =
    PreventDefault
  | SendRequest request
  | Alert string
  | ConsoleError string js_error
  | SetLoading bool
  | SetError string
  | SetHolidays jsval
  | SetEvents jsval
  | SetShowHolidayForm bool
  | SetHolidayForm jsval
  | SetShowEventForm bool
  | SetEventForm jsval
  | SetClasses jsval
  | SetSubjects jsval
  | SetTeachers jsval
  | SetShowCreateForm bool
  | SetFormData jsval

record browser =
  localStorage :: "string \<rightharpoonup> string"
  location_href :: string
  trace :: "effect list"

definition getItem :: "browser \<Rightarrow> string \<Rightarrow> jsval" where
  "getItem w k = (case localStorage w k of None \<Rightarrow> JNull | Some s \<Rightarrow> JStr s)"

definition removeItem :: "string \<Rightarrow> browser \<Rightarrow> browser" where
  "removeItem k w = w\<lparr>localStorage := (localStorage w)(k := None)\<rparr>"

definition emit :: "effect \<Rightarrow> browser \<Rightarrow> browser" where
  "emit e w = w\<lparr>trace := trace w @ [e]\<rparr>"

definition alert :: "jsval \<Rightarrow> browser \<Rightarrow> browser" where
  "alert v w = emit (Alert (to_string v)) w"

definition console_error :: "string \<Rightarrow> js_error \<Rightarrow> browser \<Rightarrow> browser" where
  "console_error msg e w = emit (ConsoleError msg e) w"

fun requests_sent :: "effect list \<Rightarrow> request list" where
  "requests_sent [] = []"
| "requests_sent (SendRequest r # es) = r # requests_sent es"
| "requests_sent (e # es) = requests_sent es"

fun alerts_shown :: "effect list \<Rightarrow> string list" where
  "alerts_shown [] = []"
| "alerts_shown (Alert s # es) = s # alerts_shown es"
| "alerts_shown (e # es) = alerts_shown es"

section \<open>The API client (\<open>services/api.js\<close>)\<close>

definition API_BASE_URL :: string where
  "API_BASE_URL = ''http://localhost:8000''"

text \<open>
  The network and the backend behind it: the answer to a request, \<open>None\<close> when no
  answer arrives. It is a parameter of everything that talks to the server.
\<close>

type_synonym transport = "request \<Rightarrow> response option"

text \<open>The outcome of an \<open>await\<close>: the error thrown or the value, and the browser afterwards.\<close>

type_synonym 'a async = "(js_error + 'a) \<times> browser"

subsection \<open>Interceptors\<close>

text \<open>
  \<open>api.interceptors.request.use\<close>, first function: the token is read from storage when
  the request is made, and the header is set only for a truthy token.
\<close>

definition request_onFulfilled :: "browser \<Rightarrow> request \<Rightarrow> request" where
  "request_onFulfilled w config =
     (let token = getItem w ''token'' in
      if truthy token
      then config\<lparr>headers := (headers config)(''Authorization'' \<mapsto> ''Bearer '' @ to_string token)\<rparr>
      else config)"

text \<open>\<open>api.interceptors.request.use\<close>, second function: \<open>Promise.reject(error)\<close>.\<close>

definition request_onRejected :: "js_error \<Rightarrow> browser \<Rightarrow> request async" where
  "request_onRejected e w = (Inl e, w)"

text \<open>\<open>api.interceptors.response.use\<close>: the response passes; a 401 error clears the session.\<close>

definition response_onFulfilled :: "response \<Rightarrow> browser \<Rightarrow> response async" where
  "response_onFulfilled r w = (Inr r, w)"

definition response_onRejected :: "js_error \<Rightarrow> browser \<Rightarrow> response async" where
  "response_onRejected e w =
     (if map_option status (error_response e) = Some 401
      then (Inl e, (removeItem ''user'' (removeItem ''token'' w))\<lparr>location_href := ''/login''\<rparr>)
      else (Inl e, w))"

text \<open>
  The instance is created with a \<open>baseURL\<close> and a \<open>Content-Type\<close> header and nothing else,
  so axios settles a response by its default \<open>validateStatus\<close>: a status from 200 to 299
  fulfils the promise, any other status rejects it with an error carrying the response.
\<close>

definition validateStatus :: "nat \<Rightarrow> bool" where
  "validateStatus s = (200 \<le> s \<and> s < 300)"

definition default_headers :: "string \<rightharpoonup> string" where
  "default_headers = [''Content-Type'' \<mapsto> ''application/json'']"

text \<open>
  A promise, as far as the callers can tell: what happens when it settles. A call of
  the API client first passes the request interceptor and hands the request to the
  network (\<open>api_request\<close>); the promise it returns settles when the answer is in, by
  \<open>validateStatus\<close> and the response interceptor (\<open>api_settle\<close>). Requests started
  together are all sent before the first answer is handled.
\<close>

type_synonym 'a promise = "transport \<Rightarrow> browser \<Rightarrow> 'a async"

definition api_settle :: "request \<Rightarrow> response promise" where
  "api_settle config' net w =
     (case net config' of
        None \<Rightarrow> response_onRejected (AxiosError None) w
      | Some r \<Rightarrow>
          if validateStatus (status r) then response_onFulfilled r w
          else response_onRejected (AxiosError (Some r)) w)"

definition api_request :: "browser \<Rightarrow> request \<Rightarrow> response promise \<times> browser" where
  "api_request w config =
     (let config' = request_onFulfilled w config
      in (api_settle config', emit (SendRequest config') w))"

text \<open>\<open>await p\<close>\<close>

definition await :: "transport \<Rightarrow> 'a promise \<times> browser \<Rightarrow> 'a async" where
  "await net pw = (case pw of (p, w) \<Rightarrow> p net w)"

definition api_get :: "browser \<Rightarrow> string \<Rightarrow> (string \<times> jsval) list \<Rightarrow> response promise \<times> browser" where
  "api_get w u ps =
     api_request w \<lparr>http_method = GET, baseURL = API_BASE_URL, url = u, params = ps,
       body = JUndefined, headers = default_headers\<rparr>"

definition api_post :: "browser \<Rightarrow> string \<Rightarrow> jsval \<Rightarrow> response promise \<times> browser" where
  "api_post w u d =
     api_request w \<lparr>http_method = POST, baseURL = API_BASE_URL, url = u, params = [],
       body = d, headers = default_headers\<rparr>"

text \<open>\<open>api.post(url, formData, { headers: { 'Content-Type': 'multipart/form-data' } })\<close>\<close>

definition api_post_multipart :: "browser \<Rightarrow> string \<Rightarrow> jsval \<Rightarrow> response promise \<times> browser" where
  "api_post_multipart w u d =
     api_request w \<lparr>http_method = POST, baseURL = API_BASE_URL, url = u, params = [],
       body = d, headers = default_headers(''Content-Type'' \<mapsto> ''multipart/form-data'')\<rparr>"

definition api_put :: "browser \<Rightarrow> string \<Rightarrow> jsval \<Rightarrow> response promise \<times> browser" where
  "api_put w u d =
     api_request w \<lparr>http_method = PUT, baseURL = API_BASE_URL, url = u, params = [],
       body = d, headers = default_headers\<rparr>"

definition api_delete :: "browser \<Rightarrow> string \<Rightarrow> response promise \<times> browser" where
  "api_delete w u =
     api_request w \<lparr>http_method = DELETE, baseURL = API_BASE_URL, url = u, params = [],
       body = JUndefined, headers = default_headers\<rparr>"

text \<open>\<open>const response = await ...; return response.data;\<close>\<close>

definition then_data :: "response promise \<Rightarrow> jsval promise" where
  "then_data p net w =
     (case p net w of (Inl e, w') \<Rightarrow> (Inl e, w') | (Inr r, w') \<Rightarrow> (Inr (data r), w'))"

definition return_data :: "response promise \<times> browser \<Rightarrow> jsval promise \<times> browser" where
  "return_data pw = (case pw of (p, w) \<Rightarrow> (then_data p, w))"

text \<open>\<open>await ...; return true;\<close>\<close>

definition then_true :: "response promise \<Rightarrow> jsval promise" where
  "then_true p net w =
     (case p net w of (Inl e, w') \<Rightarrow> (Inl e, w') | (Inr r, w') \<Rightarrow> (Inr (JBool True), w'))"

definition return_true :: "response promise \<times> browser \<Rightarrow> jsval promise \<times> browser" where
  "return_true pw = (case pw of (p, w) \<Rightarrow> (then_true p, w))"

text \<open>A promise that is rejected from the start: the function threw before any request.\<close>

definition rejected :: "js_error \<Rightarrow> 'a promise" where
  "rejected e net w = (Inl e, w)"

text \<open>\<open>{ search }\<close> when the filter is truthy, \<open>{}\<close> otherwise; \<open>if (v) params.k = v\<close>.\<close>

definition param_if :: "string \<Rightarrow> jsval \<Rightarrow> (string \<times> jsval) list" where
  "param_if k v = (if truthy v then [(k, v)] else [])"

subsection \<open>\<open>authAPI\<close>\<close>

definition authAPI_login :: "browser \<Rightarrow> jsval \<Rightarrow> jsval \<Rightarrow> jsval promise \<times> browser" where
  "authAPI_login w email password =
     return_data (api_post w ''/auth/login-json''
       (JObj [(''email'', email), (''password'', password)]))"

definition authAPI_setPassword :: "browser \<Rightarrow> jsval \<Rightarrow> jsval \<Rightarrow> jsval promise \<times> browser" where
  "authAPI_setPassword w token password =
     return_data (api_post w ''/auth/set-password''
       (JObj [(''token'', token), (''password'', password)]))"

subsection \<open>\<open>schoolsAPI\<close>\<close>

definition schoolsAPI_getAll :: "browser \<Rightarrow> jsval \<Rightarrow> jsval promise \<times> browser" where
  "schoolsAPI_getAll w search0 =
     (let search = default_null search0;
          ps = (if truthy search then [(''search'', search)] else [])
      in return_data (api_get w ''/schools/'' ps))"

definition schoolsAPI_getById :: "browser \<Rightarrow> jsval \<Rightarrow> jsval promise \<times> browser" where
  "schoolsAPI_getById w schoolId =
     return_data (api_get w (''/schools/'' @ to_string schoolId) [])"

definition schoolsAPI_create :: "browser \<Rightarrow> jsval \<Rightarrow> jsval promise \<times> browser" where
  "schoolsAPI_create w schoolData = return_data (api_post w ''/schools/'' schoolData)"

definition schoolsAPI_update :: "browser \<Rightarrow> jsval \<Rightarrow> jsval \<Rightarrow> jsval promise \<times> browser" where
  "schoolsAPI_update w schoolId schoolData =
     return_data (api_put w (''/schools/'' @ to_string schoolId) schoolData)"

definition schoolsAPI_delete :: "browser \<Rightarrow> jsval \<Rightarrow> jsval promise \<times> browser" where
  "schoolsAPI_delete w schoolId =
     return_true (api_delete w (''/schools/'' @ to_string schoolId))"

subsection \<open>\<open>adminsAPI\<close>\<close>

definition adminsAPI_getAll :: "browser \<Rightarrow> jsval \<Rightarrow> jsval \<Rightarrow> jsval promise \<times> browser" where
  "adminsAPI_getAll w search0 schoolId0 =
     (let search = default_null search0;
          schoolId = default_null schoolId0;
          ps = param_if ''search'' search @ param_if ''school_id'' schoolId
      in return_data (api_get w ''/schools/admins'' ps))"

definition adminsAPI_getById :: "browser \<Rightarrow> jsval \<Rightarrow> jsval promise \<times> browser" where
  "adminsAPI_getById w adminId =
     return_data (api_get w (''/schools/admins/'' @ to_string adminId) [])"

definition adminsAPI_getBySchool :: "browser \<Rightarrow> jsval \<Rightarrow> jsval promise \<times> browser" where
  "adminsAPI_getBySchool w schoolId =
     return_data (api_get w (''/schools/'' @ to_string schoolId @ ''/admins'') [])"

text \<open>
  \<open>invite\<close> reads three properties of \<open>adminData\<close>; on \<open>null\<close> or \<open>undefined\<close> the first
  read throws before any request is made.
\<close>

definition adminsAPI_invite :: "browser \<Rightarrow> jsval \<Rightarrow> jsval promise \<times> browser" where
  "adminsAPI_invite w adminData =
     (if adminData = JNull \<or> adminData = JUndefined then (rejected TypeError, w)
      else return_data (api_post w ''/super/invite-admin''
             (JObj [(''name'', get_prop adminData ''name''),
                    (''email'', get_prop adminData ''email''),
                    (''school_id'', parseInt (get_prop adminData ''school_id'') None)])))"

definition adminsAPI_create :: "browser \<Rightarrow> jsval \<Rightarrow> jsval \<Rightarrow> jsval promise \<times> browser" where
  "adminsAPI_create w schoolId adminData =
     return_data (api_post w (''/schools/'' @ to_string schoolId @ ''/admins'') adminData)"

definition adminsAPI_update :: "browser \<Rightarrow> jsval \<Rightarrow> jsval \<Rightarrow> jsval promise \<times> browser" where
  "adminsAPI_update w adminId adminData =
     return_data (api_put w (''/schools/admins/'' @ to_string adminId) adminData)"

definition adminsAPI_delete :: "browser \<Rightarrow> jsval \<Rightarrow> jsval promise \<times> browser" where
  "adminsAPI_delete w adminId =
     return_true (api_delete w (''/schools/admins/'' @ to_string adminId))"

subsection \<open>\<open>dashboardAPI\<close>\<close>

definition dashboardAPI_getStats :: "browser \<Rightarrow> jsval promise \<times> browser" where
  "dashboardAPI_getStats w = return_data (api_get w ''/dashboard/stats'' [])"

definition dashboardAPI_getUsers ::
  "browser \<Rightarrow> jsval \<Rightarrow> jsval \<Rightarrow> jsval \<Rightarrow> jsval promise \<times> browser" where
  "dashboardAPI_getUsers w search0 role0 schoolId0 =
     (let search = default_null search0;
          role = default_null role0;
          schoolId = default_null schoolId0;
          ps = param_if ''search'' search @ param_if ''role'' role
               @ param_if ''school_id'' schoolId
      in return_data (api_get w ''/dashboard/users'' ps))"

definition dashboardAPI_getUserById :: "browser \<Rightarrow> jsval \<Rightarrow> jsval promise \<times> browser" where
  "dashboardAPI_getUserById w userId =
     return_data (api_get w (''/dashboard/users/'' @ to_string userId) [])"

subsection \<open>\<open>schoolAdminAPI\<close>\<close>

text \<open>Dashboard statistics and teachers.\<close>

definition schoolAdminAPI_getDashboardStats :: "browser \<Rightarrow> jsval promise \<times> browser" where
  "schoolAdminAPI_getDashboardStats w =
     return_data (api_get w ''/admin/dashboard/stats'' [])"

definition schoolAdminAPI_getTeachers :: "browser \<Rightarrow> jsval \<Rightarrow> jsval promise \<times> browser" where
  "schoolAdminAPI_getTeachers w search0 =
     (let search = default_null search0;
          ps = param_if ''search'' search
      in return_data (api_get w ''/admin/teachers'' ps))"

definition schoolAdminAPI_createTeacher :: "browser \<Rightarrow> jsval \<Rightarrow> jsval promise \<times> browser" where
  "schoolAdminAPI_createTeacher w teacherData =
     return_data (api_post w ''/admin/teachers'' teacherData)"

definition schoolAdminAPI_updateTeacher :: "browser \<Rightarrow> jsval \<Rightarrow> jsval \<Rightarrow> jsval promise \<times> browser" where
  "schoolAdminAPI_updateTeacher w teacherId teacherData =
     return_data (api_put w (''/admin/teachers/'' @ to_string teacherId) teacherData)"

definition schoolAdminAPI_deleteTeacher :: "browser \<Rightarrow> jsval \<Rightarrow> jsval promise \<times> browser" where
  "schoolAdminAPI_deleteTeacher w teacherId =
     return_data (api_delete w (''/admin/teachers/'' @ to_string teacherId))"

definition schoolAdminAPI_uploadTeachersExcel :: "browser \<Rightarrow> jsval \<Rightarrow> jsval promise \<times> browser" where
  "schoolAdminAPI_uploadTeachersExcel w file =
     (let formData = JFormData [(''file'', file)]
      in return_data (api_post_multipart w ''/admin/teachers/upload-excel'' formData))"

text \<open>Students.\<close>

definition schoolAdminAPI_getStudents :: "browser \<Rightarrow> jsval \<Rightarrow> jsval \<Rightarrow> jsval promise \<times> browser" where
  "schoolAdminAPI_getStudents w search0 grade0 =
     (let search = default_null search0;
          grade = default_null grade0;
          ps = param_if ''search'' search @ param_if ''grade'' grade
      in return_data (api_get w ''/admin/students'' ps))"

definition schoolAdminAPI_createStudent :: "browser \<Rightarrow> jsval \<Rightarrow> jsval promise \<times> browser" where
  "schoolAdminAPI_createStudent w studentData =
     return_data (api_post w ''/admin/students'' studentData)"

definition schoolAdminAPI_updateStudent :: "browser \<Rightarrow> jsval \<Rightarrow> jsval \<Rightarrow> jsval promise \<times> browser" where
  "schoolAdminAPI_updateStudent w studentId studentData =
     return_data (api_put w (''/admin/students/'' @ to_string studentId) studentData)"

definition schoolAdminAPI_deleteStudent :: "browser \<Rightarrow> jsval \<Rightarrow> jsval promise \<times> browser" where
  "schoolAdminAPI_deleteStudent w studentId =
     return_data (api_delete w (''/admin/students/'' @ to_string studentId))"

definition schoolAdminAPI_uploadStudentsExcel :: "browser \<Rightarrow> jsval \<Rightarrow> jsval promise \<times> browser" where
  "schoolAdminAPI_uploadStudentsExcel w file =
     (let formData = JFormData [(''file'', file)]
      in return_data (api_post_multipart w ''/admin/students/upload-excel'' formData))"

text \<open>Parents.\<close>

definition schoolAdminAPI_getParents :: "browser \<Rightarrow> jsval \<Rightarrow> jsval promise \<times> browser" where
  "schoolAdminAPI_getParents w search0 =
     (let search = default_null search0;
          ps = param_if ''search'' search
      in return_data (api_get w ''/admin/parents'' ps))"

definition schoolAdminAPI_createParent :: "browser \<Rightarrow> jsval \<Rightarrow> jsval promise \<times> browser" where
  "schoolAdminAPI_createParent w parentData =
     return_data (api_post w ''/admin/parents'' parentData)"

definition schoolAdminAPI_updateParent :: "browser \<Rightarrow> jsval \<Rightarrow> jsval \<Rightarrow> jsval promise \<times> browser" where
  "schoolAdminAPI_updateParent w parentId parentData =
     return_data (api_put w (''/admin/parents/'' @ to_string parentId) parentData)"

definition schoolAdminAPI_deleteParent :: "browser \<Rightarrow> jsval \<Rightarrow> jsval promise \<times> browser" where
  "schoolAdminAPI_deleteParent w parentId =
     return_data (api_delete w (''/admin/parents/'' @ to_string parentId))"

definition schoolAdminAPI_uploadParentsExcel :: "browser \<Rightarrow> jsval \<Rightarrow> jsval promise \<times> browser" where
  "schoolAdminAPI_uploadParentsExcel w file =
     (let formData = JFormData [(''file'', file)]
      in return_data (api_post_multipart w ''/admin/parents/upload-excel'' formData))"

text \<open>Subjects and classes. \<open>assignStudentToClass\<close> posts without a body.\<close>

definition schoolAdminAPI_getSubjects :: "browser \<Rightarrow> jsval promise \<times> browser" where
  "schoolAdminAPI_getSubjects w =
     return_data (api_get w ''/admin/subjects'' [])"

definition schoolAdminAPI_createSubject :: "browser \<Rightarrow> jsval \<Rightarrow> jsval promise \<times> browser" where
  "schoolAdminAPI_createSubject w subjectData =
     return_data (api_post w ''/admin/subjects'' subjectData)"

definition schoolAdminAPI_getClasses :: "browser \<Rightarrow> jsval promise \<times> browser" where
  "schoolAdminAPI_getClasses w =
     return_data (api_get w ''/admin/classes'' [])"

definition schoolAdminAPI_createClass :: "browser \<Rightarrow> jsval \<Rightarrow> jsval promise \<times> browser" where
  "schoolAdminAPI_createClass w classData =
     return_data (api_post w ''/admin/classes'' classData)"

definition schoolAdminAPI_assignStudentToClass :: "browser \<Rightarrow> jsval \<Rightarrow> jsval \<Rightarrow> jsval promise \<times> browser" where
  "schoolAdminAPI_assignStudentToClass w classId studentId =
     return_data (api_post w (''/admin/classes/'' @ to_string classId @ ''/students/'' @ to_string studentId)
       JUndefined)"

definition schoolAdminAPI_getClassStudents :: "browser \<Rightarrow> jsval \<Rightarrow> jsval promise \<times> browser" where
  "schoolAdminAPI_getClassStudents w classId =
     return_data (api_get w (''/admin/classes/'' @ to_string classId @ ''/students'') [])"

definition schoolAdminAPI_removeStudentFromClass :: "browser \<Rightarrow> jsval \<Rightarrow> jsval \<Rightarrow> jsval promise \<times> browser" where
  "schoolAdminAPI_removeStudentFromClass w classId studentId =
     return_data (api_delete w (''/admin/classes/'' @ to_string classId @ ''/students/'' @ to_string studentId))"

text \<open>Timetable, holidays, events, announcements, lessons.\<close>

definition schoolAdminAPI_getTimetable :: "browser \<Rightarrow> jsval \<Rightarrow> jsval promise \<times> browser" where
  "schoolAdminAPI_getTimetable w classId0 =
     (let classId = default_null classId0;
          ps = param_if ''class_id'' classId
      in return_data (api_get w ''/admin/timetable'' ps))"

definition schoolAdminAPI_createTimetableSlot :: "browser \<Rightarrow> jsval \<Rightarrow> jsval promise \<times> browser" where
  "schoolAdminAPI_createTimetableSlot w slotData =
     return_data (api_post w ''/admin/timetable'' slotData)"

definition schoolAdminAPI_getHolidays :: "browser \<Rightarrow> jsval promise \<times> browser" where
  "schoolAdminAPI_getHolidays w =
     return_data (api_get w ''/admin/holidays'' [])"

definition schoolAdminAPI_createHoliday :: "browser \<Rightarrow> jsval \<Rightarrow> jsval promise \<times> browser" where
  "schoolAdminAPI_createHoliday w holidayData =
     return_data (api_post w ''/admin/holidays'' holidayData)"

definition schoolAdminAPI_getEvents :: "browser \<Rightarrow> jsval promise \<times> browser" where
  "schoolAdminAPI_getEvents w =
     return_data (api_get w ''/admin/events'' [])"

definition schoolAdminAPI_createEvent :: "browser \<Rightarrow> jsval \<Rightarrow> jsval promise \<times> browser" where
  "schoolAdminAPI_createEvent w eventData =
     return_data (api_post w ''/admin/events'' eventData)"

definition schoolAdminAPI_getAnnouncements :: "browser \<Rightarrow> jsval \<Rightarrow> jsval promise \<times> browser" where
  "schoolAdminAPI_getAnnouncements w targetAudience0 =
     (let targetAudience = default_null targetAudience0;
          ps = param_if ''target_audience'' targetAudience
      in return_data (api_get w ''/admin/announcements'' ps))"

definition schoolAdminAPI_createAnnouncement :: "browser \<Rightarrow> jsval \<Rightarrow> jsval promise \<times> browser" where
  "schoolAdminAPI_createAnnouncement w announcementData =
     return_data (api_post w ''/admin/announcements'' announcementData)"

definition schoolAdminAPI_getLessons :: "browser \<Rightarrow> jsval \<Rightarrow> jsval promise \<times> browser" where
  "schoolAdminAPI_getLessons w classId0 =
     (let classId = default_null classId0;
          ps = param_if ''class_id'' classId
      in return_data (api_get w ''/admin/lessons'' ps))"

text \<open>Links between parents and students, and analytics.\<close>

definition schoolAdminAPI_getStudentParents :: "browser \<Rightarrow> jsval \<Rightarrow> jsval promise \<times> browser" where
  "schoolAdminAPI_getStudentParents w studentId =
     return_data (api_get w (''/admin/students/'' @ to_string studentId @ ''/parents'') [])"

definition schoolAdminAPI_getParentStudents :: "browser \<Rightarrow> jsval \<Rightarrow> jsval promise \<times> browser" where
  "schoolAdminAPI_getParentStudents w parentId =
     return_data (api_get w (''/admin/parents/'' @ to_string parentId @ ''/students'') [])"

definition schoolAdminAPI_createParentStudentLink :: "browser \<Rightarrow> jsval \<Rightarrow> jsval promise \<times> browser" where
  "schoolAdminAPI_createParentStudentLink w linkData =
     return_data (api_post w ''/admin/parent-student/link'' linkData)"

definition schoolAdminAPI_deleteParentStudentLink :: "browser \<Rightarrow> jsval \<Rightarrow> jsval promise \<times> browser" where
  "schoolAdminAPI_deleteParentStudentLink w linkId =
     return_data (api_delete w (''/admin/parent-student/link/'' @ to_string linkId))"

definition schoolAdminAPI_getStudentsWithParents :: "browser \<Rightarrow> jsval \<Rightarrow> jsval promise \<times> browser" where
  "schoolAdminAPI_getStudentsWithParents w search0 =
     (let search = default_null search0;
          ps = (if truthy search then [(''search'', search)] else [])
      in return_data (api_get w ''/admin/students-with-parents'' ps))"

definition schoolAdminAPI_getParentsWithStudents :: "browser \<Rightarrow> jsval \<Rightarrow> jsval promise \<times> browser" where
  "schoolAdminAPI_getParentsWithStudents w search0 =
     (let search = default_null search0;
          ps = (if truthy search then [(''search'', search)] else [])
      in return_data (api_get w ''/admin/parents-with-students'' ps))"

definition schoolAdminAPI_getParentStudentStats :: "browser \<Rightarrow> jsval promise \<times> browser" where
  "schoolAdminAPI_getParentStudentStats w =
     return_data (api_get w ''/admin/parent-student/stats'' [])"

definition schoolAdminAPI_uploadStudentsParentsCombined :: "browser \<Rightarrow> jsval \<Rightarrow> jsval promise \<times> browser" where
  "schoolAdminAPI_uploadStudentsParentsCombined w file =
     (let formData = JFormData [(''file'', file)]
      in return_data (api_post_multipart w ''/admin/parent-student/upload-combined-excel'' formData))"

definition schoolAdminAPI_getAnalytics :: "browser \<Rightarrow> jsval promise \<times> browser" where
  "schoolAdminAPI_getAnalytics w =
     return_data (api_get w ''/admin/analytics'' [])"

section \<open>Views\<close>

text \<open>
  A view is the React state of the component together with the browser. Each state
  setter updates its variable and leaves a mark in the trace.
\<close>

type_synonym 'c view = "'c \<times> browser"

definition in_browser :: "(browser \<Rightarrow> browser) \<Rightarrow> 'c view \<Rightarrow> 'c view" where
  "in_browser f v = (case v of (c, w) \<Rightarrow> (c, f w))"

text \<open>
  \<open>Promise.all\<close> over promises whose requests are already on their way. All of them
  settle; the result is the list of values, or the error of the promise that was
  rejected first. Which one that is depends on the timing of the answers: \<open>pick\<close>
  selects it among the rejected ones. The code that awaits only touches the React
  state and the trace, the settling promises only the storage and the location, so
  settling all of them before the awaiting code resumes gives the same final state.
\<close>

fun settle_all :: "'a promise list \<Rightarrow> transport \<Rightarrow> browser \<Rightarrow> (js_error + 'a) list \<times> browser" where
  "settle_all [] net w = ([], w)"
| "settle_all (p # ps) net w =
     (case p net w of (r, w') \<Rightarrow>
        (case settle_all ps net w' of (rs, w'') \<Rightarrow> (r # rs, w'')))"

fun errors_of :: "(js_error + 'a) list \<Rightarrow> js_error list" where
  "errors_of [] = []"
| "errors_of (Inl e # rs) = e # errors_of rs"
| "errors_of (Inr a # rs) = errors_of rs"

fun values_of :: "(js_error + 'a) list \<Rightarrow> 'a list" where
  "values_of [] = []"
| "values_of (Inl e # rs) = values_of rs"
| "values_of (Inr a # rs) = a # values_of rs"

definition Promise_all :: "'a promise list \<Rightarrow> nat \<Rightarrow> 'a list promise" where
  "Promise_all ps pick net w =
     (case settle_all ps net w of (rs, w') \<Rightarrow>
        (case errors_of rs of
           [] \<Rightarrow> (Inr (values_of rs), w')
         | e # es \<Rightarrow> (Inl ((e # es) ! (pick mod length (e # es))), w')))"

text \<open>Array destructuring \<open>const [a, b] = xs\<close>: a missing element is \<open>undefined\<close>.\<close>

definition element :: "jsval list \<Rightarrow> nat \<Rightarrow> jsval" where
  "element xs i = (if i < length xs then xs ! i else JUndefined)"

text \<open>\<open>err.response?.data?.detail\<close>\<close>

definition error_detail :: "js_error \<Rightarrow> jsval" where
  "error_detail err =
     (case error_response err of None \<Rightarrow> JUndefined | Some r \<Rightarrow> get_prop (data r) ''detail'')"

record fetch_state =
  loading :: bool
  error :: string

definition setLoading :: "bool \<Rightarrow> ('a fetch_state_scheme) view \<Rightarrow> ('a fetch_state_scheme) view" where
  "setLoading b v = (case v of (c, w) \<Rightarrow> (c\<lparr>loading := b\<rparr>, emit (SetLoading b) w))"

definition setError :: "string \<Rightarrow> ('a fetch_state_scheme) view \<Rightarrow> ('a fetch_state_scheme) view" where
  "setError s v = (case v of (c, w) \<Rightarrow> (c\<lparr>error := s\<rparr>, emit (SetError s) w))"

subsection \<open>\<open>HolidaysEvents\<close>\<close>

record holidays_events = fetch_state +
  holidays :: jsval
  events :: jsval
  showHolidayForm :: bool
  showEventForm :: bool
  holidayForm :: jsval
  eventForm :: jsval

definition empty_holidayForm :: jsval where
  "empty_holidayForm =
     JObj [(''name'', JStr ''''), (''start_date'', JStr ''''), (''end_date'', JStr ''''),
           (''description'', JStr '''')]"

definition empty_eventForm :: jsval where
  "empty_eventForm =
     JObj [(''title'', JStr ''''), (''description'', JStr ''''), (''event_date'', JStr ''''),
           (''event_time'', JStr ''''), (''event_type'', JStr '''')]"

text \<open>The \<open>useState\<close> defaults.\<close>

definition HolidaysEvents_initial :: holidays_events where
  "HolidaysEvents_initial =
     \<lparr>loading = True, error = '''', holidays = JArr [], events = JArr [],
      showHolidayForm = False, showEventForm = False,
      holidayForm = empty_holidayForm, eventForm = empty_eventForm\<rparr>"

definition setHolidays :: "jsval \<Rightarrow> holidays_events view \<Rightarrow> holidays_events view" where
  "setHolidays x v = (case v of (c, w) \<Rightarrow> (c\<lparr>holidays := x\<rparr>, emit (SetHolidays x) w))"

definition setEvents :: "jsval \<Rightarrow> holidays_events view \<Rightarrow> holidays_events view" where
  "setEvents x v = (case v of (c, w) \<Rightarrow> (c\<lparr>events := x\<rparr>, emit (SetEvents x) w))"

definition setShowHolidayForm :: "bool \<Rightarrow> holidays_events view \<Rightarrow> holidays_events view" where
  "setShowHolidayForm b v =
     (case v of (c, w) \<Rightarrow> (c\<lparr>showHolidayForm := b\<rparr>, emit (SetShowHolidayForm b) w))"

definition setHolidayForm :: "jsval \<Rightarrow> holidays_events view \<Rightarrow> holidays_events view" where
  "setHolidayForm x v =
     (case v of (c, w) \<Rightarrow> (c\<lparr>holidayForm := x\<rparr>, emit (SetHolidayForm x) w))"

definition setShowEventForm :: "bool \<Rightarrow> holidays_events view \<Rightarrow> holidays_events view" where
  "setShowEventForm b v =
     (case v of (c, w) \<Rightarrow> (c\<lparr>showEventForm := b\<rparr>, emit (SetShowEventForm b) w))"

definition setEventForm :: "jsval \<Rightarrow> holidays_events view \<Rightarrow> holidays_events view" where
  "setEventForm x v =
     (case v of (c, w) \<Rightarrow> (c\<lparr>eventForm := x\<rparr>, emit (SetEventForm x) w))"

text \<open>
  \<open>fetchData\<close> is an async function. Up to its \<open>await\<close> it runs inside its caller:
  \<open>setLoading(true)\<close> and the two calls of the client, whose promises it hands to
  \<open>Promise.all\<close> (\<open>fetchData_begin\<close>). What follows the \<open>await\<close> runs when the
  promises have settled (\<open>fetchData_rest\<close>). The trace has a request where the code
  calls the client.
\<close>

definition fetchData_begin :: "holidays_events view \<Rightarrow> jsval promise list \<times> holidays_events view" where
  "fetchData_begin v =
     (case setLoading True v of (c, w) \<Rightarrow>
        (case schoolAdminAPI_getHolidays w of (p, w1) \<Rightarrow>
           (case schoolAdminAPI_getEvents w1 of (q, w2) \<Rightarrow> ([p, q], (c, w2)))))"

definition fetchData_rest ::
  "transport \<Rightarrow> nat \<Rightarrow> jsval promise list \<Rightarrow> holidays_events view \<Rightarrow> holidays_events view" where
  "fetchData_rest net pick ps v =
     (case v of (c, w) \<Rightarrow>
        (case Promise_all ps pick net w of
           (Inr xs, w') \<Rightarrow>
             (let holidaysData = element xs 0;
                  eventsData = element xs 1
              in setLoading False
                   (setError '''' (setEvents eventsData (setHolidays holidaysData (c, w')))))
         | (Inl err, w') \<Rightarrow>
             setLoading False
               (setError ''Failed to load holidays and events. Please try again.''
                  (in_browser (console_error ''Error fetching holidays/events:'' err)
                     (c, w')))))"

definition fetchData :: "transport \<Rightarrow> nat \<Rightarrow> holidays_events view \<Rightarrow> holidays_events view" where
  "fetchData net pick v = (case fetchData_begin v of (ps, v') \<Rightarrow> fetchData_rest net pick ps v')"

text \<open>
  The submit handlers. They call \<open>fetchData()\<close> without \<open>await\<close>: the fetch begins,
  the alert is shown, and the fetch finishes when the answers are in.
\<close>

definition handleCreateHoliday :: "transport \<Rightarrow> nat \<Rightarrow> holidays_events view \<Rightarrow> holidays_events view" where
  "handleCreateHoliday net pick v =
     (case in_browser (emit PreventDefault) v of (c, w) \<Rightarrow>
        (case await net (schoolAdminAPI_createHoliday w (holidayForm c)) of
           (Inr created, w1) \<Rightarrow>
             (case fetchData_begin
                     (setHolidayForm
                        (JObj [(''name'', JStr ''''), (''start_date'', JStr ''''),
                               (''end_date'', JStr ''''), (''description'', JStr '''')])
                        (setShowHolidayForm False (c, w1)))
              of (ps, v') \<Rightarrow>
                fetchData_rest net pick ps
                  (in_browser (alert (JStr ''Holiday created successfully!'')) v'))
         | (Inl err, w1) \<Rightarrow>
             in_browser (alert (js_or (error_detail err) (JStr ''Failed to create holiday'')))
               (in_browser (console_error ''Error creating holiday:'' err) (c, w1))))"

definition handleCreateEvent :: "transport \<Rightarrow> nat \<Rightarrow> holidays_events view \<Rightarrow> holidays_events view" where
  "handleCreateEvent net pick v =
     (case in_browser (emit PreventDefault) v of (c, w) \<Rightarrow>
        (case await net (schoolAdminAPI_createEvent w (eventForm c)) of
           (Inr created, w1) \<Rightarrow>
             (case fetchData_begin
                     (setEventForm
                        (JObj [(''title'', JStr ''''), (''description'', JStr ''''),
                               (''event_date'', JStr ''''), (''event_time'', JStr ''''),
                               (''event_type'', JStr '''')])
                        (setShowEventForm False (c, w1)))
              of (ps, v') \<Rightarrow>
                fetchData_rest net pick ps
                  (in_browser (alert (JStr ''Event created successfully!'')) v'))
         | (Inl err, w1) \<Rightarrow>
             in_browser (alert (js_or (error_detail err) (JStr ''Failed to create event'')))
               (in_browser (console_error ''Error creating event:'' err) (c, w1))))"

text \<open>
  The holiday form as the component renders it while \<open>showHolidayForm\<close> holds: three
  inputs marked \<open>required\<close>, a textarea that is not, each bound to a field of
  \<open>holidayForm\<close>; the form has \<open>onSubmit={handleCreateHoliday}\<close> and no \<open>noValidate\<close>,
  and its button has \<open>type="submit"\<close>.
\<close>

record control =
  control_type :: string
  required :: bool
  control_value :: string

text \<open>The string a controlled input shows for the value it is given.\<close>

fun dom_value :: "jsval \<Rightarrow> string" where
  "dom_value JUndefined = []"
| "dom_value JNull = []"
| "dom_value v = to_string v"

definition holiday_form_controls :: "holidays_events \<Rightarrow> control list" where
  "holiday_form_controls c =
     [\<lparr>control_type = ''text'', required = True,
       control_value = dom_value (get_prop (holidayForm c) ''name'')\<rparr>,
      \<lparr>control_type = ''date'', required = True,
       control_value = dom_value (get_prop (holidayForm c) ''start_date'')\<rparr>,
      \<lparr>control_type = ''date'', required = True,
       control_value = dom_value (get_prop (holidayForm c) ''end_date'')\<rparr>,
      \<lparr>control_type = ''textarea'', required = False,
       control_value = dom_value (get_prop (holidayForm c) ''description'')\<rparr>]"

text \<open>
  The browser's side of a submission, which the form relies on (HTML constraint
  validation): a control that is required and empty is invalid, and a form with an
  invalid control is not submitted, so its submit handler does not run.
\<close>

definition valueMissing :: "control \<Rightarrow> bool" where
  "valueMissing x = (required x \<and> control_value x = [])"

definition checkValidity :: "control list \<Rightarrow> bool" where
  "checkValidity xs = (list_all (\<lambda>x. \<not> valueMissing x) xs)"

text \<open>Pressing the submit button of the holiday form.\<close>

definition submit_holiday_form :: "transport \<Rightarrow> nat \<Rightarrow> holidays_events view \<Rightarrow> holidays_events view" where
  "submit_holiday_form net pick v =
     (case v of (c, w) \<Rightarrow>
        if checkValidity (holiday_form_controls c) then handleCreateHoliday net pick v
        else v)"

subsection \<open>\<open>ClassesManagement\<close>\<close>

record classes_management = fetch_state +
  classes :: jsval
  subjects :: jsval
  teachers :: jsval
  showCreateForm :: bool
  formData :: jsval

definition ClassesManagement_initial :: classes_management where
  "ClassesManagement_initial =
     \<lparr>loading = True, error = '''', classes = JArr [], subjects = JArr [], teachers = JArr [],
      showCreateForm = False,
      formData = JObj [(''name'', JStr ''''), (''grade'', JStr ''''), (''subject_id'', JStr ''''),
                       (''teacher_id'', JStr ''''), (''academic_year'', JStr '''')]\<rparr>"

definition setClasses :: "jsval \<Rightarrow> classes_management view \<Rightarrow> classes_management view" where
  "setClasses x v = (case v of (c, w) \<Rightarrow> (c\<lparr>classes := x\<rparr>, emit (SetClasses x) w))"

definition setSubjects :: "jsval \<Rightarrow> classes_management view \<Rightarrow> classes_management view" where
  "setSubjects x v = (case v of (c, w) \<Rightarrow> (c\<lparr>subjects := x\<rparr>, emit (SetSubjects x) w))"

definition setTeachers :: "jsval \<Rightarrow> classes_management view \<Rightarrow> classes_management view" where
  "setTeachers x v = (case v of (c, w) \<Rightarrow> (c\<lparr>teachers := x\<rparr>, emit (SetTeachers x) w))"

definition setShowCreateForm :: "bool \<Rightarrow> classes_management view \<Rightarrow> classes_management view" where
  "setShowCreateForm b v =
     (case v of (c, w) \<Rightarrow> (c\<lparr>showCreateForm := b\<rparr>, emit (SetShowCreateForm b) w))"

definition setFormData :: "jsval \<Rightarrow> classes_management view \<Rightarrow> classes_management view" where
  "setFormData x v = (case v of (c, w) \<Rightarrow> (c\<lparr>formData := x\<rparr>, emit (SetFormData x) w))"

definition fetchInitialData_begin ::
  "classes_management view \<Rightarrow> jsval promise list \<times> classes_management view" where
  "fetchInitialData_begin v =
     (case setLoading True v of (c, w) \<Rightarrow>
        (case schoolAdminAPI_getClasses w of (p1, w1) \<Rightarrow>
           (case schoolAdminAPI_getSubjects w1 of (p2, w2) \<Rightarrow>
              (case schoolAdminAPI_getTeachers w2 JUndefined of (p3, w3) \<Rightarrow>
                 ([p1, p2, p3], (c, w3))))))"

definition fetchInitialData_rest ::
  "transport \<Rightarrow> nat \<Rightarrow> jsval promise list \<Rightarrow> classes_management view
     \<Rightarrow> classes_management view" where
  "fetchInitialData_rest net pick ps v =
     (case v of (c, w) \<Rightarrow>
        (case Promise_all ps pick net w of
           (Inr xs, w') \<Rightarrow>
             (let classesData = element xs 0;
                  subjectsData = element xs 1;
                  teachersData = element xs 2
              in setLoading False
                   (setError ''''
                      (setTeachers teachersData
                         (setSubjects subjectsData (setClasses classesData (c, w'))))))
         | (Inl err, w') \<Rightarrow>
             setLoading False
               (setError ''Failed to load classes. Please try again.''
                  (in_browser (console_error ''Error fetching classes data:'' err) (c, w')))))"

definition fetchInitialData ::
  "transport \<Rightarrow> nat \<Rightarrow> classes_management view \<Rightarrow> classes_management view" where
  "fetchInitialData net pick v =
     (case fetchInitialData_begin v of (ps, v') \<Rightarrow> fetchInitialData_rest net pick ps v')"

text \<open>The object \<open>handleCreateClass\<close> passes to \<open>createClass\<close>.\<close>

definition classData :: "jsval \<Rightarrow> jsval" where
  "classData fd =
     JObj [(''name'', get_prop fd ''name''),
           (''grade'', get_prop fd ''grade''),
           (''subject_id'', parseInt (get_prop fd ''subject_id'') (Some 10)),
           (''teacher_id'', parseInt (get_prop fd ''teacher_id'') (Some 10)),
           (''academic_year'', js_or (get_prop fd ''academic_year'') JNull)]"

definition handleCreateClass ::
  "transport \<Rightarrow> nat \<Rightarrow> classes_management view \<Rightarrow> classes_management view" where
  "handleCreateClass net pick v =
     (case in_browser (emit PreventDefault) v of (c, w) \<Rightarrow>
        (case await net (schoolAdminAPI_createClass w (classData (formData c))) of
           (Inr created, w1) \<Rightarrow>
             (case fetchInitialData_begin
                     (setFormData
                        (JObj [(''name'', JStr ''''), (''grade'', JStr ''''),
                               (''subject_id'', JStr ''''), (''teacher_id'', JStr ''''),
                               (''academic_year'', JStr '''')])
                        (setShowCreateForm False (c, w1)))
              of (ps, v') \<Rightarrow>
                fetchInitialData_rest net pick ps
                  (in_browser (alert (JStr ''Class created successfully!'')) v'))
         | (Inl err, w1) \<Rightarrow>
             in_browser (alert (js_or (error_detail err) (JStr ''Failed to create class'')))
               (in_browser (console_error ''Error creating class:'' err) (c, w1))))"

section \<open>Role-based routing\<close>

text \<open>The user as the components read it, and what \<open>useAuth()\<close> hands to \<open>Layout\<close>.\<close>

record user =
  role :: string
  email :: string

record auth =
  user :: "user option"
  isSuperAdmin :: bool

subsection \<open>\<open>Layout\<close>\<close>

record menu_item =
  item_id :: string
  label :: string
  path :: string

definition menuItems :: "menu_item list" where
  "menuItems =
     [\<lparr>item_id = ''dashboard'', label = ''Dashboard'', path = ''/dashboard''\<rparr>,
      \<lparr>item_id = ''schools'', label = ''Schools'', path = ''/dashboard/schools''\<rparr>,
      \<lparr>item_id = ''create-school'', label = ''Create School'', path = ''/dashboard/create-school''\<rparr>,
      \<lparr>item_id = ''admins'', label = ''Admins'', path = ''/dashboard/admins''\<rparr>,
      \<lparr>item_id = ''create-admin'', label = ''Create Admin'', path = ''/dashboard/create-admin''\<rparr>,
      \<lparr>item_id = ''users'', label = ''All Users'', path = ''/dashboard/users''\<rparr>]"

definition startsWith :: "string \<Rightarrow> string \<Rightarrow> bool" where
  "startsWith s p = (take (length p) s = p)"

definition isActive :: "string \<Rightarrow> string \<Rightarrow> bool" where
  "isActive pathname p = (pathname = p \<or> startsWith pathname (p @ ''/''))"

text \<open>
  What \<open>Layout\<close> renders: the access-denied message, or the shell made of the sidebar
  (user info, one button per menu item with its active mark, the logout button), the
  header and, in the main area, the children.
\<close>

record sidebar =
  sidebarOpen :: bool
  user_info :: string
  buttons :: "(menu_item \<times> bool) list"

record header =
  title :: string
  header_email :: string

datatype 'c rendered = AccessDenied | Shell sidebar header 'c

text \<open>\<open>user?.role\<close> when the sidebar is open, \<open>user?.role?.charAt(0) || 'A'\<close> when not.\<close>

definition sidebar_user_info :: "user option \<Rightarrow> bool \<Rightarrow> string" where
  "sidebar_user_info u is_open =
     (if is_open then (case u of None \<Rightarrow> [] | Some x \<Rightarrow> role x)
      else (case u of None \<Rightarrow> ''A'' | Some x \<Rightarrow> if role x = [] then ''A'' else [hd (role x)]))"

definition Layout :: "auth \<Rightarrow> string \<Rightarrow> bool \<Rightarrow> 'c \<Rightarrow> 'c rendered" where
  "Layout a pathname is_open children =
     (if \<not> isSuperAdmin a then AccessDenied
      else Shell
             \<lparr>sidebarOpen = is_open,
              user_info = sidebar_user_info (user a) is_open,
              buttons = map (\<lambda>item. (item, isActive pathname (path item))) menuItems\<rparr>
             \<lparr>title = ''Super Admin Dashboard'',
              header_email = (case user a of None \<Rightarrow> [] | Some x \<Rightarrow> email x)\<rparr>
             children)"

subsection \<open>\<open>Dashboard\<close>\<close>

datatype component =
    DashboardOverview | SchoolList | CreateSchool | EditSchool | SchoolDetails
  | AdminList | CreateAdmin | EditAdmin | ViewAllUsers
  | SchoolAdminDashboard | TeachersManagement | StudentsManagement | ParentsManagement
  | ClassesManagement | TimetableManagement | HolidaysEvents | Announcements
  | LessonsView | Analytics
  | TeacherDashboard | MyClasses | MyStudents | Attendance

text \<open>\<open><Route index element={...} />\<close> and \<open><Route path="..." element={...} />\<close>\<close>

datatype route = Index component | Route string component


definition school_admin_routes :: "route list" where
  "school_admin_routes =
     [Index SchoolAdminDashboard,
      Route ''/teachers'' TeachersManagement,
      Route ''/students'' StudentsManagement,
      Route ''/parents'' ParentsManagement,
      Route ''/classes'' ClassesManagement,
      Route ''/timetable'' TimetableManagement,
      Route ''/holidays-events'' HolidaysEvents,
      Route ''/announcements'' Announcements,
      Route ''/lessons'' LessonsView,
      Route ''/analytics'' Analytics]"

definition teacher_routes :: "route list" where
  "teacher_routes =
     [Index TeacherDashboard,
      Route ''/classes'' MyClasses,
      Route ''/classes/:classId/students'' MyStudents,
      Route ''/students'' MyStudents,
      Route ''/attendance'' Attendance]"

definition super_admin_routes :: "route list" where
  "super_admin_routes =
     [Index DashboardOverview,
      Route ''/schools/:id/edit'' EditSchool,
      Route ''/schools/:id'' SchoolDetails,
      Route ''/schools'' SchoolList,
      Route ''/create-school'' CreateSchool,
      Route ''/admins/:id/edit'' EditAdmin,
      Route ''/admins'' AdminList,
      Route ''/create-admin'' CreateAdmin,
      Route ''/users'' ViewAllUsers]"

text \<open>
  The children of \<open><Routes>\<close> in the element \<open>Dashboard\<close> returns,
  \<open><Layout><Routes>...</Routes></Layout>\<close>: chosen by \<open>user?.role\<close>.
\<close>

definition Dashboard_routes :: "auth \<Rightarrow> route list" where
  "Dashboard_routes a =
     (let isAdmin = (map_option role (user a) = Some ''ADMIN'');
          isTeacher = (map_option role (user a) = Some ''TEACHER'')
      in if isAdmin then school_admin_routes
         else if isTeacher then teacher_routes
         else super_admin_routes)"

text \<open>Rendering \<open>Dashboard\<close>: \<open>Layout\<close> around the chosen routes.\<close>

definition Dashboard :: "auth \<Rightarrow> string \<Rightarrow> bool \<Rightarrow> route list rendered" where
  "Dashboard a pathname is_open = Layout a pathname is_open (Dashboard_routes a)"

section \<open>Vocabulary of the properties\<close>

text \<open>The request a call of the API client makes from a browser, after the interceptor.\<close>

definition get_request :: "browser \<Rightarrow> string \<Rightarrow> (string \<times> jsval) list \<Rightarrow> request" where
  "get_request w u ps =
     request_onFulfilled w \<lparr>http_method = GET, baseURL = API_BASE_URL, url = u, params = ps,
       body = JUndefined, headers = default_headers\<rparr>"

definition post_request :: "browser \<Rightarrow> string \<Rightarrow> jsval \<Rightarrow> request" where
  "post_request w u d =
     request_onFulfilled w \<lparr>http_method = POST, baseURL = API_BASE_URL, url = u, params = [],
       body = d, headers = default_headers\<rparr>"

text \<open>The last request in the trace of a call that has been started.\<close>

definition the_request :: "'a promise \<times> browser \<Rightarrow> request" where
  "the_request pw = last (requests_sent (trace (snd pw)))"

text \<open>The server answers the request with a status from 200 to 299.\<close>

definition succeeds :: "transport \<Rightarrow> request \<Rightarrow> bool" where
  "succeeds net req = (case net req of None \<Rightarrow> False | Some r \<Rightarrow> validateStatus (status r))"

text \<open>
  What the HTTP call of a started API function comes to: the response of a
  successful call, or the HTTP error of a failed one.
\<close>

definition http_outcome :: "transport \<Rightarrow> request \<Rightarrow> js_error + response" where
  "http_outcome net req =
     (case net req of
        None \<Rightarrow> Inl (AxiosError None)
      | Some r \<Rightarrow> if validateStatus (status r) then Inr r else Inl (AxiosError (Some r)))"

text \<open>
  The function returns the parsed body of the response to its request, or throws
  the HTTP error; and the same with \<open>true\<close> in place of the body.
\<close>

definition body_or_error :: "transport \<Rightarrow> jsval promise \<times> browser \<Rightarrow> bool" where
  "body_or_error net pw =
     (fst (await net pw) =
        (case http_outcome net (the_request pw) of Inl e \<Rightarrow> Inl e | Inr r \<Rightarrow> Inr (data r)))"

definition true_or_error :: "transport \<Rightarrow> jsval promise \<times> browser \<Rightarrow> bool" where
  "true_or_error net pw =
     (fst (await net pw) =
        (case http_outcome net (the_request pw) of Inl e \<Rightarrow> Inl e | Inr r \<Rightarrow> Inr (JBool True)))"

subsection \<open>Concrete inputs\<close>

text \<open>A server that gives every request the same answer, and one that gives none.\<close>

definition always :: "response \<Rightarrow> transport" where
  "always r req = Some r"

definition no_answer :: transport where
  "no_answer req = None"

text \<open>A server that accepts what is posted and answers every other request with a list.\<close>

definition accepting :: "jsval \<Rightarrow> transport" where
  "accepting xs req =
     (if http_method req = POST then Some \<lparr>status = 201, data = body req\<rparr>
      else Some \<lparr>status = 200, data = xs\<rparr>)"

definition signed_in :: browser where
  "signed_in =
     \<lparr>localStorage = [''token'' \<mapsto> ''abc'', ''user'' \<mapsto> ''{}''],
      location_href = ''/dashboard'', trace = []\<rparr>"

definition signed_out :: browser where
  "signed_out = \<lparr>localStorage = Map.empty, location_href = ''/login'', trace = []\<rparr>"

definition empty_token :: browser where
  "empty_token =
     \<lparr>localStorage = [''token'' \<mapsto> ''''], location_href = ''/dashboard'', trace = []\<rparr>"

definition stats_config :: request where
  "stats_config =
     \<lparr>http_method = GET, baseURL = API_BASE_URL, url = ''/dashboard/stats'', params = [],
      body = JUndefined, headers = default_headers\<rparr>"

definition unauthorized :: response where
  "unauthorized = \<lparr>status = 401, data = JObj [(''detail'', JStr ''Could not validate credentials'')]\<rparr>"

definition teacher_not_found :: response where
  "teacher_not_found = \<lparr>status = 400, data = JObj [(''detail'', JStr ''Teacher not found'')]\<rparr>"

definition empty_detail :: response where
  "empty_detail = \<lparr>status = 400, data = JObj [(''detail'', JStr '''')]\<rparr>"

definition deleted :: response where
  "deleted = \<lparr>status = 200, data = JObj [(''message'', JStr ''School deleted successfully'')]\<rparr>"

definition new_year :: jsval where
  "new_year =
     JObj [(''name'', JStr ''New Year''), (''start_date'', JStr ''2026-01-01''),
           (''end_date'', JStr ''2026-01-01''), (''description'', JStr '''')]"

definition holiday_without_end :: jsval where
  "holiday_without_end =
     JObj [(''name'', JStr ''New Year''), (''start_date'', JStr ''2026-01-01''),
           (''end_date'', JStr ''''), (''description'', JStr '''')]"

definition class_5A :: jsval where
  "class_5A =
     JObj [(''name'', JStr ''Grade 5A''), (''grade'', JStr ''5''), (''subject_id'', JStr ''3''),
           (''teacher_id'', JStr ''99''), (''academic_year'', JStr '''')]"

definition admin_user :: user where
  "admin_user = \<lparr>role = ''ADMIN'', email = ''admin@school.example''\<rparr>"



definition holiday_form_filled :: holidays_events where
  "holiday_form_filled =
     HolidaysEvents_initial\<lparr>loading := False, showHolidayForm := True, holidayForm := new_year\<rparr>"

definition holiday_form_incomplete :: holidays_events where
  "holiday_form_incomplete =
     HolidaysEvents_initial\<lparr>loading := False, showHolidayForm := True,
       holidayForm := holiday_without_end\<rparr>"

definition class_form_filled :: classes_management where
  "class_form_filled =
     ClassesManagement_initial\<lparr>loading := False, showCreateForm := True, formData := class_5A\<rparr>"

definition admin_session :: auth where
  "admin_session = \<lparr>user = Some admin_user, isSuperAdmin = False\<rparr>"



definition new_admin :: jsval where
  "new_admin =
     JObj [(''name'', JStr ''Ada''), (''email'', JStr ''ada@school.example''),
           (''school_id'', JStr ''7'')]"



section \<open>Role-based routing: properties\<close>






text \<open>
  Claim C2. When the auth context says \<open>isSuperAdmin\<close> is false, \<open>Layout\<close> renders the
  access-denied view and nothing else: no sidebar, no header, no children, whatever
  the requested URL, the state of the sidebar and the children are. \<open>Dashboard\<close>, which
  wraps its routes in \<open>Layout\<close>, then renders the access-denied view as well.
\<close>

theorem Layout_access_denied:
  "\<not> isSuperAdmin a \<Longrightarrow>
     Layout a pathname is_open children = AccessDenied
   \<and> (\<forall>s h c. Layout a pathname is_open children \<noteq> Shell s h c)
   \<and> Dashboard a pathname is_open = AccessDenied"
  by (simp add: Layout_def Dashboard_def)

theorem Layout_access_denied_witness:
  "\<not> isSuperAdmin admin_session
 \<and> Layout admin_session ''/dashboard/schools'' True school_admin_routes = AccessDenied
 \<and> Dashboard admin_session ''/dashboard/schools'' True = AccessDenied"
proof -
  have h: "\<not> isSuperAdmin admin_session"
    by (simp add: admin_session_def)
  show ?thesis
    using h Layout_access_denied [OF h, of "''/dashboard/schools''" True school_admin_routes]
    by simp
qed

section \<open>The API client: properties\<close>

lemma requests_sent_append: "requests_sent (xs @ ys) = requests_sent xs @ requests_sent ys"
  by (induction xs rule: requests_sent.induct) simp_all

lemma alerts_shown_append: "alerts_shown (xs @ ys) = alerts_shown xs @ alerts_shown ys"
  by (induction xs rule: alerts_shown.induct) simp_all

lemma emit_simps [simp]:
  "localStorage (emit e w) = localStorage w"
  "location_href (emit e w) = location_href w"
  "trace (emit e w) = trace w @ [e]"
  by (simp_all add: emit_def)

text \<open>The interceptor reads the storage only.\<close>

lemma request_onFulfilled_trace [simp]:
  "request_onFulfilled (w\<lparr>trace := t\<rparr>) config = request_onFulfilled w config"
  by (simp add: request_onFulfilled_def getItem_def)

lemma request_onFulfilled_emit [simp]:
  "request_onFulfilled (emit e w) config = request_onFulfilled w config"
  by (simp add: emit_def)

lemma the_request_api_request [simp]:
  "the_request (api_request w config) = request_onFulfilled w config"
  "the_request (return_data (api_request w config)) = request_onFulfilled w config"
  "the_request (return_true (api_request w config)) = request_onFulfilled w config"
  by (simp_all add: the_request_def api_request_def return_data_def return_true_def Let_def
      requests_sent_append)

lemma fst_api_settle: "fst (api_settle req net w) = http_outcome net req"
  by (cases "net req")
     (simp_all add: api_settle_def http_outcome_def response_onFulfilled_def
        response_onRejected_def)

lemma api_settle_parts:
  "api_settle req net w = (http_outcome net req, snd (api_settle req net w))"
  using fst_api_settle [of req net w] by (cases "api_settle req net w") simp

lemma then_data_parts:
  "then_data (api_settle req) net w =
     (case http_outcome net req of Inl e \<Rightarrow> Inl e | Inr r \<Rightarrow> Inr (data r),
      snd (api_settle req net w))"
  using api_settle_parts [of req net w]
  by (cases "api_settle req net w") (auto simp: then_data_def split: sum.splits)

lemma then_true_parts:
  "then_true (api_settle req) net w =
     (case http_outcome net req of Inl e \<Rightarrow> Inl e | Inr r \<Rightarrow> Inr (JBool True),
      snd (api_settle req net w))"
  using api_settle_parts [of req net w]
  by (cases "api_settle req net w") (auto simp: then_true_def split: sum.splits)

lemma body_or_error_return_data: "body_or_error net (return_data (api_request w config))"
  by (simp add: body_or_error_def await_def return_data_def api_request_def Let_def
      the_request_def requests_sent_append then_data_parts)

lemma true_or_error_return_true: "true_or_error net (return_true (api_request w config))"
  by (simp add: true_or_error_def await_def return_true_def api_request_def Let_def
      the_request_def requests_sent_append then_true_parts)

lemmas api_verbs = api_get_def api_post_def api_post_multipart_def api_put_def api_delete_def

lemmas api_functions =
  authAPI_login_def authAPI_setPassword_def schoolsAPI_getAll_def schoolsAPI_getById_def
  schoolsAPI_create_def schoolsAPI_update_def schoolsAPI_delete_def adminsAPI_getAll_def
  adminsAPI_getById_def adminsAPI_getBySchool_def adminsAPI_invite_def
  adminsAPI_create_def adminsAPI_update_def adminsAPI_delete_def dashboardAPI_getStats_def
  dashboardAPI_getUsers_def dashboardAPI_getUserById_def
  schoolAdminAPI_getDashboardStats_def schoolAdminAPI_getTeachers_def
  schoolAdminAPI_createTeacher_def schoolAdminAPI_updateTeacher_def
  schoolAdminAPI_deleteTeacher_def schoolAdminAPI_uploadTeachersExcel_def
  schoolAdminAPI_getStudents_def schoolAdminAPI_createStudent_def
  schoolAdminAPI_updateStudent_def schoolAdminAPI_deleteStudent_def
  schoolAdminAPI_uploadStudentsExcel_def schoolAdminAPI_getParents_def
  schoolAdminAPI_createParent_def schoolAdminAPI_updateParent_def
  schoolAdminAPI_deleteParent_def schoolAdminAPI_uploadParentsExcel_def
  schoolAdminAPI_getSubjects_def schoolAdminAPI_createSubject_def
  schoolAdminAPI_getClasses_def schoolAdminAPI_createClass_def
  schoolAdminAPI_assignStudentToClass_def schoolAdminAPI_getClassStudents_def
  schoolAdminAPI_removeStudentFromClass_def schoolAdminAPI_getTimetable_def
  schoolAdminAPI_createTimetableSlot_def schoolAdminAPI_getHolidays_def
  schoolAdminAPI_createHoliday_def schoolAdminAPI_getEvents_def
  schoolAdminAPI_createEvent_def schoolAdminAPI_getAnnouncements_def
  schoolAdminAPI_createAnnouncement_def schoolAdminAPI_getLessons_def
  schoolAdminAPI_getStudentParents_def schoolAdminAPI_getParentStudents_def
  schoolAdminAPI_createParentStudentLink_def schoolAdminAPI_deleteParentStudentLink_def
  schoolAdminAPI_getStudentsWithParents_def schoolAdminAPI_getParentsWithStudents_def
  schoolAdminAPI_getParentStudentStats_def
  schoolAdminAPI_uploadStudentsParentsCombined_def schoolAdminAPI_getAnalytics_def

text \<open>
  Claim C3. Whatever request was made through the client, when the server answers it
  with status 401 the promise is rejected with the HTTP error, the entries \<open>token\<close>
  and \<open>user\<close> are gone from the storage (nothing else in it has changed) and the
  location is \<open>/login\<close>; when the answer has any other status, storage and location
  are as before.
\<close>

theorem response_401_clears_session:
  "net (request_onFulfilled w config) = Some r \<Longrightarrow>
     (status r = 401 \<longrightarrow>
        localStorage (snd (await net (api_request w config)))
          = (localStorage w)(''token'' := None, ''user'' := None)
      \<and> location_href (snd (await net (api_request w config))) = ''/login''
      \<and> fst (await net (api_request w config)) = Inl (AxiosError (Some r)))
   \<and> (status r \<noteq> 401 \<longrightarrow>
        localStorage (snd (await net (api_request w config))) = localStorage w
      \<and> location_href (snd (await net (api_request w config))) = location_href w)"
  by (simp add: await_def api_request_def api_settle_def Let_def response_onRejected_def
      response_onFulfilled_def validateStatus_def removeItem_def)

theorem response_401_clears_session_witness:
  "localStorage (snd (await (always unauthorized) (api_request signed_in stats_config))) ''token''
     = None
 \<and> localStorage (snd (await (always unauthorized) (api_request signed_in stats_config))) ''user''
     = None
 \<and> location_href (snd (await (always unauthorized) (api_request signed_in stats_config)))
     = ''/login''
 \<and> localStorage (snd (await (always deleted) (api_request signed_in stats_config))) ''token''
     = Some ''abc''"
proof -
  have u: "always unauthorized (request_onFulfilled signed_in stats_config) = Some unauthorized"
    and d: "always deleted (request_onFulfilled signed_in stats_config) = Some deleted"
    by (simp_all add: always_def)
  show ?thesis
    using response_401_clears_session [of "always unauthorized" signed_in stats_config unauthorized, OF u]
      response_401_clears_session [of "always deleted" signed_in stats_config deleted, OF d]
    by (simp add: unauthorized_def deleted_def signed_in_def)
qed

text \<open>
  Claim C4, as the code has it. The interceptor tests the stored token for truth, so
  an entry \<open>token\<close> holding the empty string is treated like no entry. With a
  non-empty token \<open>t\<close> in the storage when the request is made, the request that
  leaves carries \<open>Authorization: Bearer t\<close> and is otherwise the config it was given;
  with no token, or the empty one, the config leaves as it was given, no header
  attached. The request handed to the network is the interceptor's result.
\<close>

theorem request_bearer_token:
  "(\<forall>t. localStorage w ''token'' = Some t \<and> t \<noteq> [] \<longrightarrow>
        request_onFulfilled w config
          = config\<lparr>headers := (headers config)(''Authorization'' \<mapsto> ''Bearer '' @ t)\<rparr>
      \<and> headers (request_onFulfilled w config) ''Authorization'' = Some (''Bearer '' @ t))
 \<and> (localStorage w ''token'' = None \<or> localStorage w ''token'' = Some [] \<longrightarrow>
        request_onFulfilled w config = config)
 \<and> the_request (api_request w config) = request_onFulfilled w config"
  by (auto simp: request_onFulfilled_def getItem_def)

theorem request_bearer_token_witness:
  "headers (the_request (api_request signed_in stats_config)) ''Authorization''
     = Some ''Bearer abc''
 \<and> the_request (api_request signed_out stats_config) = stats_config
 \<and> the_request (api_request empty_token stats_config) = stats_config"
  using request_bearer_token [of signed_in stats_config]
    request_bearer_token [of signed_out stats_config]
    request_bearer_token [of empty_token stats_config]
  by (simp add: signed_in_def signed_out_def empty_token_def)

text \<open>
  Without the restriction to a non-empty token, C4 does not hold: an entry
  \<open>token\<close> that holds the empty string is present in the storage, and the request
  leaves without the header.
\<close>

theorem request_empty_token_counterexample:
  "\<not> (localStorage empty_token ''token'' = Some '''' \<longrightarrow>
       headers (the_request (api_request empty_token stats_config)) ''Authorization''
         = Some (''Bearer '' @ ''''))"
  by (simp add: empty_token_def request_onFulfilled_def getItem_def stats_config_def
      default_headers_def)

text \<open>
  Claim C7, as the code has it. \<open>schoolsAPI.delete\<close> and \<open>adminsAPI.delete\<close> do not
  return the body of the response: they return \<open>true\<close> when the DELETE request
  succeeds. Every other function of the client returns the parsed body of the
  response to its request when the request succeeds, and all of them, the two
  \<open>delete\<close> included, throw the HTTP error when it fails. (\<open>adminsAPI.invite\<close> makes
  its request when \<open>adminData\<close> is an object; on \<open>null\<close> or \<open>undefined\<close> it throws
  before any request.)
\<close>

theorem api_functions_return:
  "body_or_error net (authAPI_login w email' password)
 \<and> body_or_error net (authAPI_setPassword w token password)
 \<and> body_or_error net (schoolsAPI_getAll w search)
 \<and> body_or_error net (schoolsAPI_getById w schoolId)
 \<and> body_or_error net (schoolsAPI_create w schoolData)
 \<and> body_or_error net (schoolsAPI_update w schoolId schoolData)
 \<and> true_or_error net (schoolsAPI_delete w schoolId)
 \<and> body_or_error net (adminsAPI_getAll w search schoolId)
 \<and> body_or_error net (adminsAPI_getById w adminId)
 \<and> body_or_error net (adminsAPI_getBySchool w schoolId)
 \<and> (adminData \<noteq> JNull \<and> adminData \<noteq> JUndefined \<longrightarrow> body_or_error net (adminsAPI_invite w adminData))
 \<and> body_or_error net (adminsAPI_create w schoolId adminData)
 \<and> body_or_error net (adminsAPI_update w adminId adminData)
 \<and> true_or_error net (adminsAPI_delete w adminId)
 \<and> body_or_error net (dashboardAPI_getStats w)
 \<and> body_or_error net (dashboardAPI_getUsers w search role' schoolId)
 \<and> body_or_error net (dashboardAPI_getUserById w userId)
 \<and> body_or_error net (schoolAdminAPI_getDashboardStats w)
 \<and> body_or_error net (schoolAdminAPI_getTeachers w search)
 \<and> body_or_error net (schoolAdminAPI_createTeacher w teacherData)
 \<and> body_or_error net (schoolAdminAPI_updateTeacher w teacherId teacherData)
 \<and> body_or_error net (schoolAdminAPI_deleteTeacher w teacherId)
 \<and> body_or_error net (schoolAdminAPI_uploadTeachersExcel w upload)
 \<and> body_or_error net (schoolAdminAPI_getStudents w search grade)
 \<and> body_or_error net (schoolAdminAPI_createStudent w studentData)
 \<and> body_or_error net (schoolAdminAPI_updateStudent w studentId studentData)
 \<and> body_or_error net (schoolAdminAPI_deleteStudent w studentId)
 \<and> body_or_error net (schoolAdminAPI_uploadStudentsExcel w upload)
 \<and> body_or_error net (schoolAdminAPI_getParents w search)
 \<and> body_or_error net (schoolAdminAPI_createParent w parentData)
 \<and> body_or_error net (schoolAdminAPI_updateParent w parentId parentData)
 \<and> body_or_error net (schoolAdminAPI_deleteParent w parentId)
 \<and> body_or_error net (schoolAdminAPI_uploadParentsExcel w upload)
 \<and> body_or_error net (schoolAdminAPI_getSubjects w)
 \<and> body_or_error net (schoolAdminAPI_createSubject w subjectData)
 \<and> body_or_error net (schoolAdminAPI_getClasses w)
 \<and> body_or_error net (schoolAdminAPI_createClass w classData')
 \<and> body_or_error net (schoolAdminAPI_assignStudentToClass w classId studentId)
 \<and> body_or_error net (schoolAdminAPI_getClassStudents w classId)
 \<and> body_or_error net (schoolAdminAPI_removeStudentFromClass w classId studentId)
 \<and> body_or_error net (schoolAdminAPI_getTimetable w classId)
 \<and> body_or_error net (schoolAdminAPI_createTimetableSlot w slotData)
 \<and> body_or_error net (schoolAdminAPI_getHolidays w)
 \<and> body_or_error net (schoolAdminAPI_createHoliday w holidayData)
 \<and> body_or_error net (schoolAdminAPI_getEvents w)
 \<and> body_or_error net (schoolAdminAPI_createEvent w eventData)
 \<and> body_or_error net (schoolAdminAPI_getAnnouncements w targetAudience)
 \<and> body_or_error net (schoolAdminAPI_createAnnouncement w announcementData)
 \<and> body_or_error net (schoolAdminAPI_getLessons w classId)
 \<and> body_or_error net (schoolAdminAPI_getStudentParents w studentId)
 \<and> body_or_error net (schoolAdminAPI_getParentStudents w parentId)
 \<and> body_or_error net (schoolAdminAPI_createParentStudentLink w linkData)
 \<and> body_or_error net (schoolAdminAPI_deleteParentStudentLink w linkId)
 \<and> body_or_error net (schoolAdminAPI_getStudentsWithParents w search)
 \<and> body_or_error net (schoolAdminAPI_getParentsWithStudents w search)
 \<and> body_or_error net (schoolAdminAPI_getParentStudentStats w)
 \<and> body_or_error net (schoolAdminAPI_uploadStudentsParentsCombined w upload)
 \<and> body_or_error net (schoolAdminAPI_getAnalytics w)"
  by (simp add: api_functions api_verbs Let_def body_or_error_return_data
      true_or_error_return_true del: truthy.simps)

theorem api_functions_return_witness:
  "fst (await (always deleted) (adminsAPI_invite signed_in new_admin)) = Inr (data deleted)
 \<and> fst (await (always deleted) (schoolsAPI_delete signed_in (JNum 1))) = Inr (JBool True)
 \<and> fst (await (always unauthorized) (schoolsAPI_getById signed_in (JNum 1)))
     = Inl (AxiosError (Some unauthorized))
 \<and> fst (await no_answer (adminsAPI_delete signed_in (JNum 1))) = Inl (AxiosError None)"
proof -
  note ok = api_functions_return [where
      net = "always deleted" and w = signed_in and email' = JNull and password = JNull and
      token = JNull and search = JNull and schoolId = "JNum 1" and schoolData = JNull
      and adminId = "JNum 1" and adminData = new_admin and role' = JNull and userId =
      "JNum 1" and teacherData = JNull and teacherId = "JNum 1" and upload = JNull and
      grade = JNull and studentData = JNull and studentId = "JNum 1" and parentData =
      JNull and parentId = "JNum 1" and subjectData = JNull and classData' = JNull and
      classId = "JNum 1" and slotData = JNull and holidayData = JNull and eventData =
      JNull and targetAudience = JNull and announcementData = JNull and linkData = JNull
      and linkId = "JNum 1"]
  note denied = api_functions_return [where
      net = "always unauthorized" and w = signed_in and email' = JNull and password = JNull
      and token = JNull and search = JNull and schoolId = "JNum 1" and schoolData =
      JNull and adminId = "JNum 1" and adminData = new_admin and role' = JNull and
      userId = "JNum 1" and teacherData = JNull and teacherId = "JNum 1" and upload =
      JNull and grade = JNull and studentData = JNull and studentId = "JNum 1" and
      parentData = JNull and parentId = "JNum 1" and subjectData = JNull and classData'
      = JNull and classId = "JNum 1" and slotData = JNull and holidayData = JNull and
      eventData = JNull and targetAudience = JNull and announcementData = JNull and
      linkData = JNull and linkId = "JNum 1"]
  note silent = api_functions_return [where
      net = "no_answer" and w = signed_in and email' = JNull and password = JNull and token =
      JNull and search = JNull and schoolId = "JNum 1" and schoolData = JNull and
      adminId = "JNum 1" and adminData = new_admin and role' = JNull and userId = "JNum
      1" and teacherData = JNull and teacherId = "JNum 1" and upload = JNull and grade =
      JNull and studentData = JNull and studentId = "JNum 1" and parentData = JNull and
      parentId = "JNum 1" and subjectData = JNull and classData' = JNull and classId =
      "JNum 1" and slotData = JNull and holidayData = JNull and eventData = JNull and
      targetAudience = JNull and announcementData = JNull and linkData = JNull and
      linkId = "JNum 1"]
  have n: "new_admin \<noteq> JNull \<and> new_admin \<noteq> JUndefined"
    by (simp add: new_admin_def)
  show ?thesis
    using ok denied silent n
    by (simp add: body_or_error_def true_or_error_def http_outcome_def always_def
        no_answer_def deleted_def unauthorized_def validateStatus_def
        adminsAPI_invite_def schoolsAPI_delete_def schoolsAPI_getById_def
        adminsAPI_delete_def api_verbs)
qed

text \<open>
  With the body of the response returned by every function, C7 does not hold:
  a DELETE request of \<open>schoolsAPI.delete\<close> succeeds with a body, and the function
  returns \<open>true\<close>.
\<close>

theorem schoolsAPI_delete_counterexample:
  "succeeds (always deleted) (the_request (schoolsAPI_delete signed_in (JNum 1)))
 \<and> fst (await (always deleted) (schoolsAPI_delete signed_in (JNum 1))) \<noteq> Inr (data deleted)"
  by (simp add: schoolsAPI_delete_def api_delete_def succeeds_def always_def deleted_def
      validateStatus_def await_def return_true_def then_true_def api_request_def Let_def
      api_settle_def response_onFulfilled_def)

text \<open>
  Claim C9. A falsy filter never reaches the request: for every falsy value \<open>v\<close>
  (\<open>null\<close>, \<open>undefined\<close>, the empty string, \<open>0\<close>, and \<open>false\<close> and \<open>NaN\<close> as well),
  \<open>schoolsAPI.getAll\<close>, \<open>adminsAPI.getAll\<close> and \<open>dashboardAPI.getUsers\<close> called with
  \<open>v\<close> for a filter start the same call as with \<open>null\<close> there, the request has no
  parameter of that name, and so the results are the same.
\<close>

theorem falsy_filters_omitted:
  "\<not> truthy v \<Longrightarrow>
     schoolsAPI_getAll w v = schoolsAPI_getAll w JNull
   \<and> params (the_request (schoolsAPI_getAll w v)) = []
   \<and> adminsAPI_getAll w v schoolId = adminsAPI_getAll w JNull schoolId
   \<and> map_of (params (the_request (adminsAPI_getAll w v schoolId))) ''search'' = None
   \<and> adminsAPI_getAll w search v = adminsAPI_getAll w search JNull
   \<and> map_of (params (the_request (adminsAPI_getAll w search v))) ''school_id'' = None
   \<and> dashboardAPI_getUsers w v role' schoolId = dashboardAPI_getUsers w JNull role' schoolId
   \<and> map_of (params (the_request (dashboardAPI_getUsers w v role' schoolId))) ''search'' = None
   \<and> dashboardAPI_getUsers w search v schoolId = dashboardAPI_getUsers w search JNull schoolId
   \<and> map_of (params (the_request (dashboardAPI_getUsers w search v schoolId))) ''role'' = None
   \<and> dashboardAPI_getUsers w search role' v = dashboardAPI_getUsers w search role' JNull
   \<and> map_of (params (the_request (dashboardAPI_getUsers w search role' v))) ''school_id'' = None
   \<and> await net (schoolsAPI_getAll w v) = await net (schoolsAPI_getAll w JNull)
   \<and> await net (adminsAPI_getAll w v v) = await net (adminsAPI_getAll w JNull JNull)
   \<and> await net (dashboardAPI_getUsers w v v v)
       = await net (dashboardAPI_getUsers w JNull JNull JNull)"
  by (simp add: schoolsAPI_getAll_def adminsAPI_getAll_def dashboardAPI_getUsers_def
      api_get_def Let_def default_null_def param_if_def request_onFulfilled_def)

theorem falsy_filters_omitted_witness:
  "schoolsAPI_getAll signed_in (JStr '''') = schoolsAPI_getAll signed_in JNull
 \<and> adminsAPI_getAll signed_in (JStr ''ada'') (JNum 0)
     = adminsAPI_getAll signed_in (JStr ''ada'') JNull
 \<and> params (the_request (adminsAPI_getAll signed_in (JStr ''ada'') (JNum 0)))
     = [(''search'', JStr ''ada'')]
 \<and> dashboardAPI_getUsers signed_in JUndefined (JStr ''TEACHER'') (JNum 0)
     = dashboardAPI_getUsers signed_in JNull (JStr ''TEACHER'') JNull"
proof -
  have e: "\<not> truthy (JStr '''')" and z: "\<not> truthy (JNum 0)" and u: "\<not> truthy JUndefined"
    by simp_all
  note a = falsy_filters_omitted [OF e, of signed_in JNull JNull JNull no_answer]
  note b = falsy_filters_omitted [OF z, of signed_in JNull "JStr ''ada''" JNull no_answer]
  note c = falsy_filters_omitted [OF u, of signed_in "JNum 0" JNull "JStr ''TEACHER''" no_answer]
  note d = falsy_filters_omitted [OF z, of signed_in JNull JNull "JStr ''TEACHER''" no_answer]
  have p: "params (the_request (adminsAPI_getAll signed_in (JStr ''ada'') JNull))
      = [(''search'', JStr ''ada'')]"
    by (simp add: adminsAPI_getAll_def api_get_def Let_def default_null_def param_if_def
        request_onFulfilled_def)
  from a b c d p show ?thesis
    by simp
qed
section \<open>Views: properties\<close>

lemma get_request_trace [simp]: "get_request (w\<lparr>trace := t\<rparr>) u ps = get_request w u ps"
  by (simp add: get_request_def)

lemma post_request_trace [simp]: "post_request (w\<lparr>trace := t\<rparr>) u d = post_request w u d"
  by (simp add: post_request_def)

lemma get_request_emit [simp]: "get_request (emit e w) u ps = get_request w u ps"
  by (simp add: get_request_def)

lemma post_request_emit [simp]: "post_request (emit e w) u d = post_request w u d"
  by (simp add: post_request_def)

lemma request_method [simp]:
  "http_method (get_request w u ps) = GET"
  "http_method (post_request w u d) = POST"
  by (simp_all add: get_request_def post_request_def request_onFulfilled_def Let_def)

lemma api_settle_ok:
  "succeeds net req \<Longrightarrow> api_settle req net w = (http_outcome net req, w)"
  by (cases "net req")
     (simp_all add: succeeds_def api_settle_def http_outcome_def response_onFulfilled_def)

lemma trace_api_settle [simp]: "trace (snd (api_settle req net w)) = trace w"
  by (cases "net req")
     (simp_all add: api_settle_def response_onFulfilled_def response_onRejected_def
        removeItem_def)

lemma http_outcome_ok:
  "net req = Some r \<Longrightarrow> validateStatus (status r) \<Longrightarrow> http_outcome net req = Inr r"
  by (simp add: http_outcome_def)

lemma http_outcome_fails: "\<not> succeeds net req \<Longrightarrow> \<exists>e. http_outcome net req = Inl e"
  by (cases "net req") (simp_all add: http_outcome_def succeeds_def)

lemma succeeds_outcome: "succeeds net req \<Longrightarrow> \<exists>r. http_outcome net req = Inr r"
  by (cases "net req") (simp_all add: http_outcome_def succeeds_def)

lemma getHolidays_eq:
  "schoolAdminAPI_getHolidays w =
     (then_data (api_settle (get_request w ''/admin/holidays'' [])),
      emit (SendRequest (get_request w ''/admin/holidays'' [])) w)"
  by (simp add: schoolAdminAPI_getHolidays_def api_get_def api_request_def return_data_def
      get_request_def Let_def)

lemma getEvents_eq:
  "schoolAdminAPI_getEvents w =
     (then_data (api_settle (get_request w ''/admin/events'' [])),
      emit (SendRequest (get_request w ''/admin/events'' [])) w)"
  by (simp add: schoolAdminAPI_getEvents_def api_get_def api_request_def return_data_def
      get_request_def Let_def)

lemma createHoliday_eq:
  "schoolAdminAPI_createHoliday w d =
     (then_data (api_settle (post_request w ''/admin/holidays'' d)),
      emit (SendRequest (post_request w ''/admin/holidays'' d)) w)"
  by (simp add: schoolAdminAPI_createHoliday_def api_post_def api_request_def return_data_def
      post_request_def Let_def)

lemma createClass_eq:
  "schoolAdminAPI_createClass w d =
     (then_data (api_settle (post_request w ''/admin/classes'' d)),
      emit (SendRequest (post_request w ''/admin/classes'' d)) w)"
  by (simp add: schoolAdminAPI_createClass_def api_post_def api_request_def return_data_def
      post_request_def Let_def)

text \<open>How \<open>fetchData\<close> begins, and the two ways it can end.\<close>

lemma fetchData_begin_eq:
  "fetchData_begin (c, w) =
     ([then_data (api_settle (get_request w ''/admin/holidays'' [])),
       then_data (api_settle (get_request w ''/admin/events'' []))],
      (c\<lparr>loading := True\<rparr>,
       w\<lparr>trace := trace w @
          [SetLoading True,
           SendRequest (get_request w ''/admin/holidays'' []),
           SendRequest (get_request w ''/admin/events'' [])]\<rparr>))"
  by (simp add: fetchData_begin_def setLoading_def getHolidays_eq getEvents_eq emit_def)

lemma fetchData_rest_ok:
  assumes "net rh = Some h" "validateStatus (status h)"
    and "net re = Some e" "validateStatus (status e)"
  shows "fetchData_rest net pick [then_data (api_settle rh), then_data (api_settle re)] (c, w) =
     (c\<lparr>holidays := data h, events := data e, error := [], loading := False\<rparr>,
      w\<lparr>trace := trace w @
         [SetHolidays (data h), SetEvents (data e), SetError [], SetLoading False]\<rparr>)"
proof -
  have s1: "succeeds net rh" and s2: "succeeds net re"
    using assms by (simp_all add: succeeds_def)
  show ?thesis
    using assms
    by (simp add: fetchData_rest_def Promise_all_def then_data_def
        api_settle_ok [OF s1] api_settle_ok [OF s2] http_outcome_ok element_def Let_def
        setLoading_def setError_def setEvents_def setHolidays_def emit_def)
qed

lemma fetchData_rest_fails:
  assumes "\<not> succeeds net rh \<or> \<not> succeeds net re"
  shows "fst (fetchData_rest net pick [then_data (api_settle rh), then_data (api_settle re)] (c, w))
     = c\<lparr>error := ''Failed to load holidays and events. Please try again.'', loading := False\<rparr>"
proof -
  obtain x where x: "http_outcome net rh = x" by simp
  obtain y where y: "http_outcome net re = y" by simp
  from assms have "(\<exists>e. x = Inl e) \<or> (\<exists>e. y = Inl e)"
    using http_outcome_fails x y by blast
  then show ?thesis
    by (cases x; cases y)
       (auto simp: fetchData_rest_def Promise_all_def then_data_parts x y setLoading_def
          setError_def in_browser_def split: prod.splits)
qed

lemma fetchData_rest_trace:
  "\<exists>rest. trace (snd (fetchData_rest net pick
              [then_data (api_settle rh), then_data (api_settle re)] (c, w)))
     = trace w @ rest"
proof -
  obtain x where x: "http_outcome net rh = x" by simp
  obtain y where y: "http_outcome net re = y" by simp
  show ?thesis
    by (cases x; cases y)
       (simp_all add: fetchData_rest_def Promise_all_def then_data_parts x y setLoading_def
          setError_def setEvents_def setHolidays_def in_browser_def console_error_def Let_def
          split: prod.splits)
qed

lemma fetchData_rest_forms:
  "showHolidayForm (fst (fetchData_rest net pick ps (c, w))) = showHolidayForm c
 \<and> holidayForm (fst (fetchData_rest net pick ps (c, w))) = holidayForm c
 \<and> loading (fst (fetchData_rest net pick ps (c, w))) = False"
proof (cases "Promise_all ps pick net w")
  case (Pair r w')
  then show ?thesis
    by (cases r)
       (simp_all add: fetchData_rest_def setLoading_def setError_def setEvents_def
          setHolidays_def in_browser_def Let_def)
qed

text \<open>
  Claim C10. When \<open>getHolidays\<close> or \<open>getEvents\<close> is rejected, \<open>fetchData\<close> leaves the
  state as it was but for the error message, which is set, and \<open>loading\<close>, which is
  false: the lists of holidays and events are the ones held before. When both
  succeed, the two lists are replaced by the bodies of the responses and the error
  message is cleared. In both cases \<open>loading\<close> ends up false.
\<close>

theorem fetchData_outcome:
  "(\<forall>h e. net (get_request w ''/admin/holidays'' []) = Some h \<and> validateStatus (status h)
         \<and> net (get_request w ''/admin/events'' []) = Some e \<and> validateStatus (status e)
      \<longrightarrow> fst (fetchData net pick (c, w))
            = c\<lparr>loading := False, error := [], holidays := data h, events := data e\<rparr>)
 \<and> (\<not> succeeds net (get_request w ''/admin/holidays'' [])
      \<or> \<not> succeeds net (get_request w ''/admin/events'' [])
      \<longrightarrow> fst (fetchData net pick (c, w))
            = c\<lparr>loading := False,
                 error := ''Failed to load holidays and events. Please try again.''\<rparr>
        \<and> holidays (fst (fetchData net pick (c, w))) = holidays c
        \<and> events (fst (fetchData net pick (c, w))) = events c)
 \<and> loading (fst (fetchData net pick (c, w))) = False"
proof -
  have ok: "fst (fetchData net pick (c, w))
            = c\<lparr>loading := False, error := [], holidays := data h, events := data e\<rparr>"
    if "net (get_request w ''/admin/holidays'' []) = Some h" "validateStatus (status h)"
      "net (get_request w ''/admin/events'' []) = Some e" "validateStatus (status e)" for h e
    using that by (simp add: fetchData_def fetchData_begin_eq fetchData_rest_ok)
  have bad: "fst (fetchData net pick (c, w))
            = c\<lparr>loading := False,
                 error := ''Failed to load holidays and events. Please try again.''\<rparr>"
    if "\<not> succeeds net (get_request w ''/admin/holidays'' [])
      \<or> \<not> succeeds net (get_request w ''/admin/events'' [])"
    using that by (simp add: fetchData_def fetchData_begin_eq fetchData_rest_fails)
  have fin: "loading (fst (fetchData net pick (c, w))) = False"
    by (simp add: fetchData_def fetchData_begin_eq fetchData_rest_forms)
  show ?thesis
    using ok bad fin by auto
qed

theorem fetchData_outcome_witness:
  "fst (fetchData (accepting (JArr [new_year])) 0 (HolidaysEvents_initial, signed_in))
     = HolidaysEvents_initial\<lparr>loading := False, holidays := JArr [new_year],
         events := JArr [new_year]\<rparr>
 \<and> fst (fetchData (always unauthorized) 0 (holiday_form_filled, signed_in))
     = holiday_form_filled\<lparr>error := ''Failed to load holidays and events. Please try again.''\<rparr>"
proof -
  let ?ok = "\<lparr>status = 200, data = JArr [new_year]\<rparr>"
  have a: "accepting (JArr [new_year]) (get_request signed_in ''/admin/holidays'' []) = Some ?ok
      \<and> validateStatus (status ?ok)
      \<and> accepting (JArr [new_year]) (get_request signed_in ''/admin/events'' []) = Some ?ok
      \<and> validateStatus (status ?ok)"
    by (simp add: accepting_def validateStatus_def)
  have f: "\<not> succeeds (always unauthorized) (get_request signed_in ''/admin/holidays'' [])
      \<or> \<not> succeeds (always unauthorized) (get_request signed_in ''/admin/events'' [])"
    by (simp add: succeeds_def always_def unauthorized_def validateStatus_def)
  note T = fetchData_outcome [of "accepting (JArr [new_year])" signed_in 0 HolidaysEvents_initial]
  note F = fetchData_outcome [of "always unauthorized" signed_in 0 holiday_form_filled]
  note t = T [THEN conjunct1, rule_format, OF a]
  note g = F [THEN conjunct2, THEN conjunct1, rule_format, OF f, THEN conjunct1]
  show ?thesis
    unfolding t g
    by (simp add: HolidaysEvents_initial_def holiday_form_filled_def)
qed

text \<open>
  Claim C6. When \<open>createHoliday\<close> succeeds, the handler closes the holiday form,
  resets the four fields of the form to the empty string, starts the re-fetch
  (\<open>loading\<close> is set and the two GET requests for the holidays and the events are
  made) and shows the alert, in this order, with no reload of the page. When the
  two requests succeed, the lists of holidays and events become the bodies of their
  responses, the server's lists after the creation.
\<close>

theorem handleCreateHoliday_success:
  "net (post_request w ''/admin/holidays'' (holidayForm c)) = Some r \<and> validateStatus (status r)
   \<Longrightarrow>
     (\<exists>rest. trace (snd (handleCreateHoliday net pick (c, w))) =
        trace w @
        [PreventDefault,
         SendRequest (post_request w ''/admin/holidays'' (holidayForm c)),
         SetShowHolidayForm False,
         SetHolidayForm empty_holidayForm,
         SetLoading True,
         SendRequest (get_request w ''/admin/holidays'' []),
         SendRequest (get_request w ''/admin/events'' []),
         Alert ''Holiday created successfully!''] @ rest)
   \<and> showHolidayForm (fst (handleCreateHoliday net pick (c, w))) = False
   \<and> holidayForm (fst (handleCreateHoliday net pick (c, w))) = empty_holidayForm
   \<and> (\<forall>h e. net (get_request w ''/admin/holidays'' []) = Some h \<and> validateStatus (status h)
          \<and> net (get_request w ''/admin/events'' []) = Some e \<and> validateStatus (status e)
        \<longrightarrow> handleCreateHoliday net pick (c, w) =
              (c\<lparr>loading := False, error := [], holidays := data h, events := data e,
                  showHolidayForm := False, holidayForm := empty_holidayForm\<rparr>,
               w\<lparr>trace := trace w @
                  [PreventDefault,
                   SendRequest (post_request w ''/admin/holidays'' (holidayForm c)),
                   SetShowHolidayForm False,
                   SetHolidayForm empty_holidayForm,
                   SetLoading True,
                   SendRequest (get_request w ''/admin/holidays'' []),
                   SendRequest (get_request w ''/admin/events'' []),
                   Alert ''Holiday created successfully!'',
                   SetHolidays (data h), SetEvents (data e), SetError [],
                   SetLoading False]\<rparr>))"
proof -
  assume a: "net (post_request w ''/admin/holidays'' (holidayForm c)) = Some r
    \<and> validateStatus (status r)"
  let ?post = "post_request w ''/admin/holidays'' (holidayForm c)"
  let ?gh = "get_request w ''/admin/holidays'' []"
  let ?ge = "get_request w ''/admin/events'' []"
  let ?ps = "[then_data (api_settle ?gh), then_data (api_settle ?ge)]"
  let ?w1 = "w\<lparr>trace := trace w @
      [PreventDefault, SendRequest ?post, SetShowHolidayForm False,
       SetHolidayForm empty_holidayForm, SetLoading True, SendRequest ?gh, SendRequest ?ge,
       Alert ''Holiday created successfully!'']\<rparr>"
  let ?c1 = "c\<lparr>showHolidayForm := False, holidayForm := empty_holidayForm, loading := True\<rparr>"
  from a have s: "succeeds net ?post"
    by (simp add: succeeds_def)
  from a have o: "http_outcome net ?post = Inr r"
    by (simp add: http_outcome_ok)
  have step: "handleCreateHoliday net pick (c, w) = fetchData_rest net pick ?ps (?c1, ?w1)"
    by (simp add: handleCreateHoliday_def in_browser_def await_def createHoliday_eq
        then_data_def api_settle_ok [OF s] o setShowHolidayForm_def setHolidayForm_def
        fetchData_begin_eq alert_def empty_holidayForm_def emit_def)
  from fetchData_rest_trace [of net pick ?gh ?ge ?c1 ?w1] obtain rest where
    "trace (snd (fetchData_rest net pick ?ps (?c1, ?w1))) = trace ?w1 @ rest"
    by auto
  then have t: "\<exists>rest. trace (snd (handleCreateHoliday net pick (c, w))) =
        trace w @
        [PreventDefault, SendRequest ?post, SetShowHolidayForm False,
         SetHolidayForm empty_holidayForm, SetLoading True, SendRequest ?gh, SendRequest ?ge,
         Alert ''Holiday created successfully!''] @ rest"
    by (simp add: step)
  have f: "showHolidayForm (fst (handleCreateHoliday net pick (c, w))) = False
      \<and> holidayForm (fst (handleCreateHoliday net pick (c, w))) = empty_holidayForm"
    using fetchData_rest_forms [of net pick ?ps ?c1 ?w1] by (simp add: step)
  have full: "handleCreateHoliday net pick (c, w) =
      (c\<lparr>loading := False, error := [], holidays := data h, events := data e,
          showHolidayForm := False, holidayForm := empty_holidayForm\<rparr>,
       w\<lparr>trace := trace w @
          [PreventDefault, SendRequest ?post, SetShowHolidayForm False,
           SetHolidayForm empty_holidayForm, SetLoading True, SendRequest ?gh, SendRequest ?ge,
           Alert ''Holiday created successfully!'',
           SetHolidays (data h), SetEvents (data e), SetError [], SetLoading False]\<rparr>)"
    if "net ?gh = Some h \<and> validateStatus (status h)
      \<and> net ?ge = Some e \<and> validateStatus (status e)" for h e
    using that fetchData_rest_ok [of net ?gh h ?ge e pick ?c1 ?w1] by (simp add: step)
  from t f full show ?thesis
    by blast
qed
theorem handleCreateHoliday_success_witness:
  "fst (handleCreateHoliday (accepting (JArr [new_year])) 0 (holiday_form_filled, signed_in))
     = HolidaysEvents_initial\<lparr>loading := False, holidays := JArr [new_year],
         events := JArr [new_year]\<rparr>
 \<and> alerts_shown
       (trace (snd (handleCreateHoliday (accepting (JArr [new_year])) 0
          (holiday_form_filled, signed_in))))
     = [''Holiday created successfully!'']"
proof -
  let ?net = "accepting (JArr [new_year])"
  let ?created = "\<lparr>status = 201, data = new_year\<rparr>"
  let ?ok = "\<lparr>status = 200, data = JArr [new_year]\<rparr>"
  have p: "?net (post_request signed_in ''/admin/holidays'' (holidayForm holiday_form_filled))
        = Some ?created \<and> validateStatus (status ?created)"
    by (simp add: accepting_def validateStatus_def post_request_def request_onFulfilled_def
        Let_def holiday_form_filled_def)
  have g: "?net (get_request signed_in ''/admin/holidays'' []) = Some ?ok
      \<and> validateStatus (status ?ok)
      \<and> ?net (get_request signed_in ''/admin/events'' []) = Some ?ok
      \<and> validateStatus (status ?ok)"
    by (simp add: accepting_def validateStatus_def)
  note T = handleCreateHoliday_success [of ?net signed_in holiday_form_filled ?created 0, OF p]
  note t = T [THEN conjunct2, THEN conjunct2, THEN conjunct2, rule_format, OF g]
  show ?thesis
    unfolding t
    by (simp add: holiday_form_filled_def HolidaysEvents_initial_def empty_holidayForm_def
        signed_in_def)
qed

text \<open>
  Claim C5, as the code has it. When \<open>createClass\<close> is rejected, the handler logs the
  error and shows one alert, and the state of the component is untouched: the form
  stays open and \<open>formData\<close> keeps the values entered. The alert shows the \<open>detail\<close>
  of the response when that is a non-empty string, and the fallback
  \<open>Failed to create class\<close> when the error carries no response, the response no
  \<open>detail\<close>, or a \<open>detail\<close> that is falsy, the empty string among them.
\<close>

theorem handleCreateClass_failure:
  "http_outcome net (post_request w ''/admin/classes'' (classData (formData c))) = Inl err \<Longrightarrow>
     fst (handleCreateClass net pick (c, w)) = c
   \<and> showCreateForm (fst (handleCreateClass net pick (c, w))) = showCreateForm c
   \<and> formData (fst (handleCreateClass net pick (c, w))) = formData c
   \<and> (\<forall>d. error_detail err = JStr d \<and> d \<noteq> [] \<longrightarrow>
        trace (snd (handleCreateClass net pick (c, w))) =
          trace w @
          [PreventDefault,
           SendRequest (post_request w ''/admin/classes'' (classData (formData c))),
           ConsoleError ''Error creating class:'' err,
           Alert d])
   \<and> (\<not> truthy (error_detail err) \<longrightarrow>
        trace (snd (handleCreateClass net pick (c, w))) =
          trace w @
          [PreventDefault,
           SendRequest (post_request w ''/admin/classes'' (classData (formData c))),
           ConsoleError ''Error creating class:'' err,
           Alert ''Failed to create class''])"
  by (auto simp: handleCreateClass_def in_browser_def await_def createClass_eq then_data_parts
      js_or_def alert_def console_error_def)

theorem handleCreateClass_failure_witness:
  "fst (handleCreateClass (always teacher_not_found) 0 (class_form_filled, signed_in))
     = class_form_filled
 \<and> alerts_shown
       (trace (snd (handleCreateClass (always teacher_not_found) 0
          (class_form_filled, signed_in))))
     = [''Teacher not found'']
 \<and> alerts_shown
       (trace (snd (handleCreateClass no_answer 0 (class_form_filled, signed_in))))
     = [''Failed to create class'']"
proof -
  let ?req = "post_request signed_in ''/admin/classes'' (classData (formData class_form_filled))"
  have o: "http_outcome (always teacher_not_found) ?req = Inl (AxiosError (Some teacher_not_found))"
    by (simp add: http_outcome_def always_def teacher_not_found_def validateStatus_def)
  have n: "http_outcome no_answer ?req = Inl (AxiosError None)"
    by (simp add: http_outcome_def no_answer_def)
  have d: "error_detail (AxiosError (Some teacher_not_found)) = JStr ''Teacher not found''
      \<and> ''Teacher not found'' \<noteq> []"
    by (simp add: error_detail_def teacher_not_found_def)
  have f: "\<not> truthy (error_detail (AxiosError None))"
    by (simp add: error_detail_def)
  note T = handleCreateClass_failure [of "always teacher_not_found" signed_in class_form_filled
      "AxiosError (Some teacher_not_found)" 0, OF o]
  note N = handleCreateClass_failure [of no_answer signed_in class_form_filled
      "AxiosError None" 0, OF n]
  note t1 = T [THEN conjunct1]
  note t2 = T [THEN conjunct2, THEN conjunct2, THEN conjunct2, THEN conjunct1, rule_format, OF d]
  note n2 = N [THEN conjunct2, THEN conjunct2, THEN conjunct2, THEN conjunct2, rule_format, OF f]
  show ?thesis
    unfolding t1 t2 n2
    by (simp add: signed_in_def)
qed

text \<open>
  With the fallback shown only for a missing \<open>detail\<close>, C5 does not hold: for a
  response whose \<open>detail\<close> is the empty string the alert shows the fallback.
\<close>

theorem handleCreateClass_empty_detail_counterexample:
  "\<not> (error_detail (AxiosError (Some empty_detail)) = JStr '''' \<longrightarrow>
       alerts_shown
         (trace (snd (handleCreateClass (always empty_detail) 0 (class_form_filled, signed_in))))
       = [''''])"
  by (simp add: handleCreateClass_def in_browser_def await_def createClass_eq then_data_parts
      http_outcome_def always_def empty_detail_def validateStatus_def error_detail_def
      js_or_def alert_def console_error_def alerts_shown_append signed_in_def)

text \<open>
  Claim C8. The three inputs for \<open>name\<close>, \<open>start_date\<close> and \<open>end_date\<close> are marked
  \<open>required\<close>. With any of them empty, the browser's validation stops the submission
  of the holiday form: the submit handler does not run, nothing changes, and no
  request is made. With all three filled in, the submission runs the handler.
\<close>

theorem submit_holiday_form_required:
  "(dom_value (get_prop (holidayForm c) ''name'') = []
    \<or> dom_value (get_prop (holidayForm c) ''start_date'') = []
    \<or> dom_value (get_prop (holidayForm c) ''end_date'') = []
    \<longrightarrow> submit_holiday_form net pick (c, w) = (c, w)
      \<and> requests_sent (trace (snd (submit_holiday_form net pick (c, w))))
          = requests_sent (trace w))
 \<and> (dom_value (get_prop (holidayForm c) ''name'') \<noteq> []
    \<and> dom_value (get_prop (holidayForm c) ''start_date'') \<noteq> []
    \<and> dom_value (get_prop (holidayForm c) ''end_date'') \<noteq> []
    \<longrightarrow> submit_holiday_form net pick (c, w) = handleCreateHoliday net pick (c, w))"
  by (auto simp: submit_holiday_form_def checkValidity_def holiday_form_controls_def
      valueMissing_def)

theorem submit_holiday_form_required_witness:
  "submit_holiday_form (accepting (JArr [new_year])) 0 (holiday_form_incomplete, signed_in)
     = (holiday_form_incomplete, signed_in)
 \<and> submit_holiday_form (accepting (JArr [new_year])) 0 (holiday_form_filled, signed_in)
     = handleCreateHoliday (accepting (JArr [new_year])) 0 (holiday_form_filled, signed_in)"
proof -
  have e: "dom_value (get_prop (holidayForm holiday_form_incomplete) ''name'') = []
      \<or> dom_value (get_prop (holidayForm holiday_form_incomplete) ''start_date'') = []
      \<or> dom_value (get_prop (holidayForm holiday_form_incomplete) ''end_date'') = []"
    by (simp add: holiday_form_incomplete_def holiday_without_end_def)
  have f: "dom_value (get_prop (holidayForm holiday_form_filled) ''name'') \<noteq> []
      \<and> dom_value (get_prop (holidayForm holiday_form_filled) ''start_date'') \<noteq> []
      \<and> dom_value (get_prop (holidayForm holiday_form_filled) ''end_date'') \<noteq> []"
    by (simp add: holiday_form_filled_def new_year_def)
  note E = submit_holiday_form_required [of holiday_form_incomplete
      "accepting (JArr [new_year])" 0 signed_in]
  note F = submit_holiday_form_required [of holiday_form_filled
      "accepting (JArr [new_year])" 0 signed_in]
  note e1 = E [THEN conjunct1, rule_format, OF e, THEN conjunct1]
  note f1 = F [THEN conjunct2, rule_format, OF f]
  from e1 f1 show ?thesis
    by simp
qed

end
